theory Spec2Isabelle
  imports Main "HOL-Library.Sublist" "HOL-Library.AList"
begin

section \<open>The MDF to PyTorch exporter (modeci\_mdf/interfaces/pytorch/exporter.py)\<close>

text \<open>
  The exporter turns an MDF model into the text of a Python module. Every function of
  \<^verbatim>\<open>exporter.py\<close> below builds that text by appending to a string, so the embedding
  computes the same strings, character by character. Python exceptions are values of
  type \<open>error\<close>; the three module-level accumulators \<^verbatim>\<open>not_self\<close>, \<^verbatim>\<open>param_set\<close> and
  \<^verbatim>\<open>graph_input\<close> are a record that every function takes and returns.
\<close>

subsection \<open>Python values and text\<close>

abbreviation nl :: char where "nl \<equiv> CHR 0x0A"
abbreviation tab :: char where "tab \<equiv> CHR 0x09"
abbreviation squote :: char where "squote \<equiv> CHR 0x27"
abbreviation dquote :: char where "dquote \<equiv> CHR 0x22"
abbreviation backslash :: char where "backslash \<equiv> CHR 0x5C"

text \<open>
  The exceptions the exporter's own statements can raise, and the two compile errors
  the specification names (no statement of the exporter raises those; they are here
  so that their absence can be stated).
\<close>

datatype error =
    TypeError | AttributeError | KeyError | IndexError | UnboundLocalError
  | CyclicGraph | UnknownFunction

text \<open>
  Parameter values, default initial values, edge weights and function arguments are
  arbitrary Python objects in MDF. The embedding covers \<^verbatim>\<open>None\<close>, integers and strings
  (strings over the code points 0..255); floats, lists, dicts and arrays are outside it.
\<close>

datatype pyval = PyNone | PyInt int | PyStr string

text \<open>Truthiness, as \<^verbatim>\<open>if parameter.value:\<close> tests it.\<close>

fun truthy :: "pyval \<Rightarrow> bool" where
  "truthy PyNone = False"
| "truthy (PyInt n) = (n \<noteq> 0)"
| "truthy (PyStr s) = (s \<noteq> [])"

function nat_digits :: "nat \<Rightarrow> string" where
  "nat_digits n =
     (if n < 10 then [''0123456789'' ! n]
      else nat_digits (n div 10) @ [''0123456789'' ! (n mod 10)])"
  by pat_completeness auto
termination
  by (relation "measure (\<lambda>n. n)") auto

declare nat_digits.simps [simp del]

definition int_str :: "int \<Rightarrow> string" where
  "int_str i = (if i < 0 then CHR ''-'' # nat_digits (nat (- i)) else nat_digits (nat i))"

text \<open>\<^verbatim>\<open>str(v)\<close>, which is what \<^verbatim>\<open>format\<close> and an f-string insert.\<close>

fun py_str :: "pyval \<Rightarrow> string" where
  "py_str PyNone = ''None''"
| "py_str (PyInt n) = int_str n"
| "py_str (PyStr s) = s"

text \<open>
  \<^verbatim>\<open>repr\<close> of a string: single quotes unless the string holds a single quote and no
  double quote; the quote and the backslash are escaped, tab, newline and carriage
  return are written \<^verbatim>\<open>\t \n \r\<close>, other non-printable code points as \<^verbatim>\<open>\xhh\<close>.
\<close>

definition hex2 :: "nat \<Rightarrow> string" where
  "hex2 n = [''0123456789abcdef'' ! (n div 16), ''0123456789abcdef'' ! (n mod 16)]"

definition repr_char :: "char \<Rightarrow> char \<Rightarrow> string" where
  "repr_char q c =
     (if c = q \<or> c = backslash then [backslash, c]
      else if c = tab then [backslash, CHR ''t'']
      else if c = nl then [backslash, CHR ''n'']
      else if c = CHR 0x0D then [backslash, CHR ''r'']
      else if (of_char c :: nat) < 32 \<or> (of_char c :: nat) = 127
              \<or> (128 \<le> (of_char c :: nat) \<and> (of_char c :: nat) \<le> 160)
              \<or> (of_char c :: nat) = 173
           then backslash # CHR ''x'' # hex2 (of_char c)
      else [c])"

definition repr_str :: "string \<Rightarrow> string" where
  "repr_str s =
     (let q = (if squote \<in> set s \<and> dquote \<notin> set s then dquote else squote)
      in q # concat (map (repr_char q) s) @ [q])"

fun py_repr :: "pyval \<Rightarrow> string" where
  "py_repr PyNone = ''None''"
| "py_repr (PyInt n) = int_str n"
| "py_repr (PyStr s) = repr_str s"

text \<open>\<^verbatim>\<open>str(tuple(xs))\<close>: a one-element tuple keeps its trailing comma.\<close>

fun join_comma :: "string list \<Rightarrow> string" where
  "join_comma [] = []"
| "join_comma [x] = x"
| "join_comma (x # y # ys) = x @ '', '' @ join_comma (y # ys)"

definition tuple_str :: "pyval list \<Rightarrow> string" where
  "tuple_str xs =
     (case xs of
        [x] \<Rightarrow> ''('' @ py_repr x @ '',)''
      | _ \<Rightarrow> ''('' @ join_comma (map py_repr xs) @ '')'')"

text \<open>\<^verbatim>\<open>i in value\<close> for two strings: \<open>i\<close> occurs in \<open>value\<close> as a substring.\<close>

fun py_in :: "string \<Rightarrow> string \<Rightarrow> bool" where
  "py_in i [] = (i = [])"
| "py_in i (c # cs) = (prefix i (c # cs) \<or> py_in i cs)"

text \<open>
  \<^verbatim>\<open>value.replace(old, new)\<close>: every occurrence of \<open>old\<close> is replaced, scanning from
  the left and resuming after each replaced occurrence; an empty \<open>old\<close> matches before
  every character and at the end.
\<close>

function replace_from :: "string \<Rightarrow> string \<Rightarrow> string \<Rightarrow> string" where
  "replace_from old new [] = []"
| "replace_from old new (c # cs) =
     (if old \<noteq> [] \<and> prefix old (c # cs)
      then new @ replace_from old new (drop (length old - 1) cs)
      else c # replace_from old new cs)"
  by pat_completeness auto
termination
  by (relation "measure (\<lambda>(old, new, s). length s)") auto

definition py_replace :: "string \<Rightarrow> string \<Rightarrow> string \<Rightarrow> string" where
  "py_replace s old new =
     (if old = [] then new @ concat (map (\<lambda>c. c # new) s) else replace_from old new s)"

subsection \<open>The intermediate representation\<close>

text \<open>
  The MDF classes (\<^verbatim>\<open>modeci_mdf.mdf\<close>) are not part of the exporter; their fields are
  read as follows. \<^verbatim>\<open>Parameter.function\<close> and \<^verbatim>\<open>Parameter.time_derivative\<close> are optional
  strings, \<^verbatim>\<open>Parameter.args\<close> and \<^verbatim>\<open>Edge.parameters\<close> optional dicts (association lists
  with distinct keys, in insertion order). The result of the method
  \<^verbatim>\<open>Parameter.is_stateful()\<close> is the field \<open>is_stateful\<close>. Of a node's functions only
  the emptiness of the list is read, so they are listed by id (\<open>node_functions\<close>).
\<close>

record parameter =
  param_id :: string
  param_value :: pyval
  is_stateful :: bool
  default_initial_value :: pyval
  time_derivative :: "string option"
  param_function :: "string option"
  args :: "(string \<times> pyval) list option"

record port =
  port_id :: string
  port_value :: pyval

record node =
  node_id :: string
  input_ports :: "port list"
  node_functions :: "string list"
  parameters :: "parameter list"
  output_ports :: "port list"

record edge =
  sender :: string
  receiver :: string
  edge_parameters :: "(string \<times> pyval) list option"

record graph =
  graph_id :: string
  nodes :: "node list"
  edges :: "edge list"

record model =
  model_id :: string
  graphs :: "graph list"

text \<open>An optional string is true when it is present and not empty.\<close>

fun truthy_opt :: "string option \<Rightarrow> bool" where
  "truthy_opt None = False"
| "truthy_opt (Some s) = (s \<noteq> [])"

text \<open>
  The module-level accumulators. \<^verbatim>\<open>param_set\<close> is a Python set: the list holds its
  elements without repetition, and \<open>set_add\<close> is \<^verbatim>\<open>param_set.add\<close>.
\<close>

record globals =
  not_self :: "pyval list"
  param_set :: "string list"
  graph_input :: "pyval list"

definition set_add :: "string \<Rightarrow> string list \<Rightarrow> string list" where
  "set_add x xs = (if x \<in> set xs then xs else xs @ [x])"

definition fresh_globals :: globals where
  "fresh_globals = \<lparr>not_self = [], param_set = [], graph_input = []\<rparr>"

text \<open>
  What the exporter imports and what Python leaves open:
  \<^item> \<open>mdf_functions\<close>: the registry \<^verbatim>\<open>modeci_mdf.functions.standard.mdf_functions\<close>, here
    the map from a function name to its \<^verbatim>\<open>expression_string\<close>;
  \<^item> \<open>evaluable_graph\<close>: what the calls to the execution engine do for a graph (see
    \<open>engine_outcome\<close> below);
  \<^item> \<open>set_iter\<close>: the order in which \<^verbatim>\<open>for i in param_set\<close> visits the elements of the
    set, which Python does not fix.
\<close>

text \<open>
  Lines 300 to 310 of \<^verbatim>\<open>_generate_scripts_from_model\<close> call the execution engine, which is
  not part of the exporter: they construct \<^verbatim>\<open>EvaluableGraph(graph, verbose=False)\<close>, read
  its attributes \<^verbatim>\<open>enodes\<close>, \<^verbatim>\<open>ordered_edges\<close> and \<^verbatim>\<open>conditions\<close> (a missing
  \<^verbatim>\<open>conditions\<close> is caught) and read \<^verbatim>\<open>graph.dependency_dict\<close>. Of what they compute only
  the ordered edges are used afterwards. For a given graph these lines do not return,
  or raise an exception, or return with the list of ordered edges.
\<close>

datatype engine_outcome = Diverges | Raises error | Returns "edge list"

record env =
  mdf_functions :: "string \<Rightarrow> string option"
  evaluable_graph :: "graph \<Rightarrow> engine_outcome"
  set_iter :: "string list \<Rightarrow> string list"

subsection \<open>ExpressionTranslator: \<^verbatim>\<open>sym\<close> and \<^verbatim>\<open>func_args\<close>\<close>

text \<open>
  One round of the loop of \<^verbatim>\<open>sym\<close> on a string:
  \<^verbatim>\<open>if i in value: value = value.replace(i, "self." + i)\<close>.
\<close>

definition sym_step :: "string \<Rightarrow> string \<Rightarrow> string" where
  "sym_step i v = (if py_in i v then py_replace v i (''self.'' @ i) else v)"

text \<open>The loop of \<^verbatim>\<open>sym\<close> over the identifiers \<open>is\<close>, in that order, on a string.\<close>

fun sym_str :: "string list \<Rightarrow> string \<Rightarrow> string" where
  "sym_str [] v = v"
| "sym_str (i # is) v = sym_str is (sym_step i v)"

text \<open>
  The loop on any value: \<^verbatim>\<open>i in value\<close> raises \<^verbatim>\<open>TypeError\<close> when the value is \<^verbatim>\<open>None\<close> or
  an integer; with no identifier to visit the value is returned as it is.
\<close>

fun sym_loop :: "string list \<Rightarrow> pyval \<Rightarrow> error + pyval" where
  "sym_loop [] v = Inr v"
| "sym_loop (i # is) v =
     (case v of
        PyStr s \<Rightarrow> sym_loop is (PyStr (sym_step i s))
      | _ \<Rightarrow> Inl TypeError)"

definition sym :: "env \<Rightarrow> globals \<Rightarrow> pyval \<Rightarrow> error + pyval" where
  "sym E g v = sym_loop (set_iter E (param_set g)) v"

text \<open>
  \<^verbatim>\<open>func_args(exp, arg_dict)\<close>: the loop body is
  \<^verbatim>\<open>if i in exp: exp = exp.replace(i, str(arg_dict[i]))\<close>; iterating \<^verbatim>\<open>None\<close> raises
  \<^verbatim>\<open>TypeError\<close>.
\<close>

definition bind_step :: "string \<times> pyval \<Rightarrow> string \<Rightarrow> string" where
  "bind_step kv e = (if py_in (fst kv) e then py_replace e (fst kv) (py_str (snd kv)) else e)"

fun bind_args :: "(string \<times> pyval) list \<Rightarrow> string \<Rightarrow> string" where
  "bind_args [] e = e"
| "bind_args (kv # kvs) e = bind_args kvs (bind_step kv e)"

definition func_args :: "string \<Rightarrow> (string \<times> pyval) list option \<Rightarrow> error + string" where
  "func_args e arg_dict =
     (case arg_dict of None \<Rightarrow> Inl TypeError | Some kvs \<Rightarrow> Inr (bind_args kvs e))"

subsection \<open>NodeModuleSynthesizer: \<^verbatim>\<open>get_module_declaration_text\<close>\<close>

definition class_header :: "string \<Rightarrow> string" where
  "class_header name = nl # ''class '' @ name @ ''(nn.Module):''"

text \<open>
  The body of the first loop over the parameters (the constructor's keyword arguments).
  It appends \<^verbatim>\<open>input_level\<close> values to \<^verbatim>\<open>graph_input\<close> and the ids of non-function
  parameters to \<^verbatim>\<open>param_set\<close>, then writes the default of the constructor argument.
  \<^verbatim>\<open>parameter.default_initial_value.value\<close> is read from a string, which has no such
  attribute.
\<close>

definition init_param :: "parameter \<Rightarrow> string \<Rightarrow> globals \<Rightarrow> (error + string) \<times> globals" where
  "init_param p text g =
     (let g1 = (if param_id p = ''input_level''
                then g\<lparr>graph_input := graph_input g @ [param_value p]\<rparr> else g);
          g2 = (if \<not> truthy_opt (param_function p)
                then g1\<lparr>param_set := set_add (param_id p) (param_set g1)\<rparr> else g1)
      in if \<not> is_stateful p \<and> \<not> truthy_opt (param_function p)
         then (Inr (text @ param_id p @ ''=torch.tensor('' @ py_str (param_value p) @ ''),''), g2)
         else if is_stateful p
         then (if truthy (param_value p)
               then (Inr (text @ param_id p @ ''=torch.tensor('' @ py_str (PyInt 0) @ ''),''), g2)
               else if default_initial_value p = PyStr ''str''
                       \<and> ''str'' \<in> set (param_set g2)
               then (Inl AttributeError, g2)
               else (Inr (text @ param_id p @ ''=torch.tensor(''
                            @ py_str (default_initial_value p) @ ''),''), g2))
         else (Inr text, g2))"

fun init_params :: "parameter list \<Rightarrow> string \<Rightarrow> globals \<Rightarrow> (error + string) \<times> globals" where
  "init_params [] text g = (Inr text, g)"
| "init_params (p # ps) text g =
     (case init_param p text g of
        (Inl e, g') \<Rightarrow> (Inl e, g')
      | (Inr text', g') \<Rightarrow> init_params ps text' g')"

text \<open>The second loop: \<^verbatim>\<open>self.<id>=<id>\<close> for every parameter without a function.\<close>

definition self_assign :: "string \<Rightarrow> parameter \<Rightarrow> string" where
  "self_assign text p =
     (if \<not> truthy_opt (param_function p)
      then text @ [nl, tab, tab] @ ''self.'' @ param_id p @ ''='' @ param_id p
      else text)"

text \<open>
  The body of the third loop (the statements of \<^verbatim>\<open>forward\<close>). The local variable
  \<^verbatim>\<open>exp\<close> is \<open>None\<close> until a function found in the registry assigns it; it is not reset
  between parameters, and reading it unassigned raises \<^verbatim>\<open>UnboundLocalError\<close>.
\<close>

definition stateful_update ::
  "env \<Rightarrow> globals \<Rightarrow> parameter \<Rightarrow> string \<Rightarrow> error + string" where
  "stateful_update E g p text =
     (if is_stateful p \<and> \<not> truthy_opt (param_function p)
      then (if truthy (param_value p)
            then (case sym E g (param_value p) of
                    Inl e \<Rightarrow> Inl e
                  | Inr v \<Rightarrow> Inr (text @ [nl, tab, tab] @ ''self.'' @ param_id p @ ''=''
                                   @ py_str v))
            else if truthy_opt (time_derivative p)
            then (case sym E g (PyStr (the (time_derivative p))) of
                    Inl e \<Rightarrow> Inl e
                  | Inr v \<Rightarrow> Inr (text @ [nl, tab, tab] @ ''self.'' @ param_id p @ ''=self.''
                                   @ param_id p @ ''+('' @ py_str v @ '')''))
            else Inr text)
      else Inr text)"

definition function_binding ::
  "env \<Rightarrow> globals \<Rightarrow> parameter \<Rightarrow> string \<times> string option \<Rightarrow> error + string \<times> string option" where
  "function_binding E g p te =
     (if truthy_opt (param_function p)
      then (let text = fst te @ [nl, tab, tab] @ param_id p @ ''='' in
            case mdf_functions E (the (param_function p)) of
              None \<Rightarrow>
                (case snd te of
                   None \<Rightarrow> Inl UnboundLocalError
                 | Some exp \<Rightarrow> Inr (text @ exp, Some exp))
            | Some template \<Rightarrow>
                (case func_args template (args p) of
                   Inl e \<Rightarrow> Inl e
                 | Inr bound \<Rightarrow>
                     (case sym E g (PyStr bound) of
                        Inl e \<Rightarrow> Inl e
                      | Inr v \<Rightarrow> Inr (text @ py_str v, Some (py_str v)))))
      else Inr te)"

definition forward_param ::
  "env \<Rightarrow> globals \<Rightarrow> parameter \<Rightarrow> string \<times> string option \<Rightarrow> error + string \<times> string option" where
  "forward_param E g p te =
     (case stateful_update E g p (fst te) of
        Inl e \<Rightarrow> Inl e
      | Inr text \<Rightarrow> function_binding E g p (text, snd te))"

fun forward_params ::
  "env \<Rightarrow> globals \<Rightarrow> parameter list \<Rightarrow> string \<times> string option \<Rightarrow> error + string \<times> string option" where
  "forward_params E g [] te = Inr te"
| "forward_params E g (p # ps) te =
     (case forward_param E g p te of
        Inl e \<Rightarrow> Inl e
      | Inr te' \<Rightarrow> forward_params E g ps te')"

text \<open>The \<^verbatim>\<open>return\<close> line; \<^verbatim>\<open>output_ports[0]\<close> of an empty list raises \<^verbatim>\<open>IndexError\<close>.\<close>

definition return_line :: "env \<Rightarrow> globals \<Rightarrow> port list \<Rightarrow> string \<Rightarrow> error + string" where
  "return_line E g ops text =
     (case ops of
        [] \<Rightarrow> Inl IndexError
      | out # _ \<Rightarrow>
          if port_value out \<in> set (not_self g)
          then Inr (text @ [nl, tab, tab] @ ''return '' @ py_str (port_value out))
          else (case sym E g (port_value out) of
                  Inl e \<Rightarrow> Inl e
                | Inr v \<Rightarrow> Inr (text @ [nl, tab, tab] @ ''return '' @ py_str v)))"

text \<open>
  The whole function. The argument \<^verbatim>\<open>node_dict\<close> holds the node's four lists, which are
  read here from the node; \<^verbatim>\<open>execution_order\<close> is not used by the source either. The
  local \<^verbatim>\<open>function_set\<close> is written and never read, so it is left out. An exception
  leaves the accumulators as they were when it was raised.
\<close>

definition get_module_declaration_text ::
  "env \<Rightarrow> string \<Rightarrow> node \<Rightarrow> string list \<Rightarrow> globals \<Rightarrow> (error + string) \<times> globals" where
  "get_module_declaration_text E name node_dict execution_order g =
     (let declaration_text = class_header name in
      if parameters node_dict \<noteq> [] \<and> node_functions node_dict = []
      then
        (case init_params (parameters node_dict)
                (declaration_text @ [nl, tab] @ ''def __init__(self,'') g of
           (Inl e, g') \<Rightarrow> (Inl e, g')
         | (Inr t1, g') \<Rightarrow>
             (let t2 = t1 @ ''):'' @ [nl, tab, tab] @ ''super().__init__()'';
                  t3 = foldl self_assign t2 (parameters node_dict);
                  t4 = t3 @ [nl, tab, tab] @ ''self.execution_count=torch.tensor(0)'';
                  t5 = t4 @ [nl, tab] @ ''def forward(self,'';
                  t6 = foldl (\<lambda>t input_port. t @ port_id input_port) t5 (input_ports node_dict);
                  t7 = t6 @ '' ):'';
                  t8 = t7 @ [nl, tab, tab]
                          @ ''self.execution_count=self.execution_count+torch.tensor(1)''
              in case forward_params E g' (parameters node_dict) (t8, None) of
                   Inl e \<Rightarrow> (Inl e, g')
                 | Inr (t9, exp) \<Rightarrow> (return_line E g' (output_ports node_dict) t9, g')))
      else (Inr declaration_text, g))"

subsection \<open>GraphAssembler: \<^verbatim>\<open>generate_main_forward\<close>\<close>

text \<open>
  \<^verbatim>\<open>d_e\<close> maps every node id to the dict of its predecessors, each with the weight of its
  edge or \<^verbatim>\<open>None\<close>; both dicts are association lists in insertion order. A dict
  assignment \<^verbatim>\<open>d[k] = v\<close> is \<open>AList.update\<close>: it overwrites in place or appends.
\<close>

type_synonym deps = "(string \<times> pyval) list"

definition zero_line :: "string \<Rightarrow> string" where
  "zero_line n = [nl, tab, tab] @ '' val_'' @ n @ ''=torch.zeros_like(input)''"

definition source_line :: "string \<Rightarrow> string" where
  "source_line n = [nl, nl, tab, tab] @ '' val_'' @ n @ ''=val_'' @ n @ ''+self.'' @ n @ ''()''"

definition edge_line :: "string \<Rightarrow> string \<times> pyval \<Rightarrow> string" where
  "edge_line n kv =
     (if snd kv = PyNone
      then [nl, tab, tab] @ '' val_'' @ n @ ''=val_'' @ n @ ''+self.'' @ n
             @ ''(val_'' @ fst kv @ '')''
      else [nl, tab, tab] @ '' val_'' @ n @ ''=val_'' @ n @ ''+self.'' @ n
             @ ''(val_'' @ fst kv @ ''*torch.tensor('' @ py_str (snd kv) @ ''))'')"

text \<open>The body of the loop over \<^verbatim>\<open>d_e.items()\<close>, on the pair of \<^verbatim>\<open>main_forward\<close> and \<^verbatim>\<open>d\<close>.\<close>

definition node_block ::
  "string \<times> (string \<times> string) list \<Rightarrow> string \<times> deps \<Rightarrow> string \<times> (string \<times> string) list" where
  "node_block acc nd =
     (if snd nd = []
      then (fst acc @ source_line (fst nd), AList.update (fst nd) (''val_'' @ fst nd) (snd acc))
      else foldl (\<lambda>a kv. (fst a @ edge_line (fst nd) kv,
                            AList.update (fst nd) (''val_'' @ fst nd) (snd a)))
             acc (snd nd))"

text \<open>The last loop: \<^verbatim>\<open>main_forward += d[node] + ","\<close>; a missing key raises \<^verbatim>\<open>KeyError\<close>.\<close>

fun return_items :: "(string \<times> string) list \<Rightarrow> string list \<Rightarrow> string \<Rightarrow> error + string" where
  "return_items d [] text = Inr text"
| "return_items d (n # ns) text =
     (case map_of d n of
        None \<Rightarrow> Inl KeyError
      | Some v \<Rightarrow> return_items d ns (text @ v @ '',''))"

text \<open>The local \<^verbatim>\<open>node_dict\<close> of the source is built from \<^verbatim>\<open>nodes\<close> and never read.\<close>

definition generate_main_forward ::
  "node list \<Rightarrow> string list \<Rightarrow> (string \<times> deps) list \<Rightarrow> error + string" where
  "generate_main_forward ns execution_order d_e =
     (let main_forward = [nl, tab] @ ''def forward(self, input):'';
          acc = (if execution_order \<noteq> []
                 then foldl node_block
                        (foldl (\<lambda>t n. t @ zero_line n) main_forward execution_order, [])
                        d_e
                 else (main_forward, []))
      in return_items (snd acc) execution_order (fst acc @ [nl, nl, tab, tab] @ '' return ''))"

subsection \<open>\<^verbatim>\<open>build_script\<close>\<close>

definition imports_string :: string where
  "imports_string = ''import torch'' @ [nl] @ ''import torch.nn as nn'' @ [nl] @ ''import onnx''
     @ [nl] @ ''import onnxruntime as rt'' @ [nl] @ ''from math import *''"

text \<open>The loop that declares one class per node, threading the accumulators.\<close>

fun declare_modules ::
  "env \<Rightarrow> node list \<Rightarrow> string list \<Rightarrow> string \<Rightarrow> globals \<Rightarrow> (error + string) \<times> globals" where
  "declare_modules E [] execution_order text g = (Inr text, g)"
| "declare_modules E (n # ns) execution_order text g =
     (case get_module_declaration_text E (node_id n) n execution_order g of
        (Inl e, g') \<Rightarrow> (Inl e, g')
      | (Inr declaration_text, g') \<Rightarrow>
          declare_modules E ns execution_order (text @ declaration_text) g')"

definition main_call_declaration :: "node list \<Rightarrow> string" where
  "main_call_declaration ns =
     foldl (\<lambda>t n. t @ [nl, tab, tab] @ ''self.'' @ node_id n @ '' = '' @ node_id n)
       (foldl (\<lambda>t n. t @ node_id n @ '', '')
          ([nl] @ ''class Model(nn.Module):'' @ [nl, tab] @ ''def __init__(self,'') ns
        @ ''):'' @ [nl, tab, tab] @ ''super().__init__()'')
       ns"

text \<open>
  The text after the forward method when the graph has more than one node. The line for
  a single node is a plain string in the source (the \<^verbatim>\<open>f\<close> stands inside the quotes),
  so its braces are written out as they are.
\<close>

definition script_tail :: "node list \<Rightarrow> string \<Rightarrow> globals \<Rightarrow> string" where
  "script_tail ns mid g =
     [nl] @ ''model = Model(''
     @ foldl (\<lambda>t n. t @ node_id n @ ''='' @ node_id n @ ''(),'') [] ns
     @ '')''
     @ [nl] @ ''model=torch.jit.script(model)''
     @ (if graph_input g \<noteq> []
        then [nl] @ ''dummy_input =torch.tensor'' @ tuple_str (graph_input g)
        else [nl] @ ''dummy_input =torch.tensor(0.0)'')
     @ [nl] @ ''output = model(dummy_input)''
     @ [nl] @ ''torch.onnx.export(model,dummy_input,'' @ [squote] @ mid @ [squote]
     @ '',verbose=True,input_names=[],example_outputs=output,opset_version=9)''
     @ [nl] @ ''onnx_model = onnx.load('' @ [squote] @ mid @ [squote] @ '')''
     @ [nl] @ ''onnx.checker.check_model(onnx_model)''
     @ [nl] @ ''sess = rt.InferenceSession('' @ [squote] @ mid @ [squote] @ '')''
     @ [nl] @ ''res = sess.run(None, {sess.get_inputs()[0].name: dummy_input.numpy()})''"

definition build_script ::
  "env \<Rightarrow> node list \<Rightarrow> string list \<Rightarrow> string \<Rightarrow> (string \<times> deps) list \<Rightarrow> globals
     \<Rightarrow> (error + string) \<times> globals" where
  "build_script E ns execution_order model_id1 d_e g =
     (let mid = model_id1 @ ''.onnx'' in
      case declare_modules E ns execution_order [] g of
        (Inl e, g') \<Rightarrow> (Inl e, g')
      | (Inr modules_declaration_text, g') \<Rightarrow>
          (case generate_main_forward ns execution_order d_e of
             Inl e \<Rightarrow> (Inl e, g')
           | Inr main_call_forward \<Rightarrow>
               (let script = imports_string @ modules_declaration_text
                               @ main_call_declaration ns @ main_call_forward
                in if length ns = 1
                   then (Inr (script @ ''f'' @ [nl] @ ''model={nodes[0].id}''), g')
                   else (Inr (script @ script_tail ns mid g'), g'))))"

subsection \<open>DependencyResolver and Exporter: \<^verbatim>\<open>_generate_scripts_from_model\<close>\<close>

text \<open>
  Modelled from the spec: \<^verbatim>\<open>Graph.get_node\<close>, a method of the class \<^verbatim>\<open>Graph\<close> of
  \<^verbatim>\<open>modeci_mdf.mdf\<close>, which the exporter calls and does not define. The specification's
  data model has node ids unique per graph and every edge's sender and receiver naming
  an existing node; so \<open>get_node\<close> is the node of the graph with that id, and \<^verbatim>\<open>None\<close> when
  the graph has none.
\<close>

definition get_node :: "graph \<Rightarrow> string \<Rightarrow> node option" where
  "get_node gr i = find (\<lambda>n. node_id n = i) (nodes gr)"

text \<open>\<^verbatim>\<open>edge.parameters["weight"]\<close> when the edge has it, else \<^verbatim>\<open>None\<close>.\<close>

definition edge_weight :: "edge \<Rightarrow> pyval" where
  "edge_weight e =
     (case edge_parameters e of
        None \<Rightarrow> PyNone
      | Some ps \<Rightarrow> (case map_of ps ''weight'' of None \<Rightarrow> PyNone | Some w \<Rightarrow> w))"

text \<open>
  \<^verbatim>\<open>d_e[receiver.id][sender.id] = weight\<close> for one edge of the graph \<open>gr\<close>: reading \<^verbatim>\<open>.id\<close> of
  \<^verbatim>\<open>None\<close> raises \<^verbatim>\<open>AttributeError\<close>, a receiver that is no key of \<^verbatim>\<open>d_e\<close> raises \<^verbatim>\<open>KeyError\<close>.
\<close>

definition add_edge :: "graph \<Rightarrow> (string \<times> deps) list \<Rightarrow> edge \<Rightarrow> error + (string \<times> deps) list" where
  "add_edge gr d_e e =
     (case get_node gr (receiver e) of
        None \<Rightarrow> Inl AttributeError
      | Some r \<Rightarrow>
          (case map_of d_e (node_id r) of
             None \<Rightarrow> Inl KeyError
           | Some ds \<Rightarrow>
               (case get_node gr (sender e) of
                  None \<Rightarrow> Inl AttributeError
                | Some s \<Rightarrow>
                    Inr (AList.update (node_id r)
                           (AList.update (node_id s) (edge_weight e) ds) d_e))))"

fun add_edges :: "graph \<Rightarrow> (string \<times> deps) list \<Rightarrow> edge list \<Rightarrow> error + (string \<times> deps) list" where
  "add_edges gr d_e [] = Inr d_e"
| "add_edges gr d_e (e # es) =
     (case add_edge gr d_e e of Inl err \<Rightarrow> Inl err | Inr d_e' \<Rightarrow> add_edges gr d_e' es)"

text \<open>The inner loop runs over the edges of every graph of the model.\<close>

fun add_graphs :: "(string \<times> deps) list \<Rightarrow> graph list \<Rightarrow> error + (string \<times> deps) list" where
  "add_graphs d_e [] = Inr d_e"
| "add_graphs d_e (gr # grs) =
     (case add_edges gr d_e (edges gr) of Inl err \<Rightarrow> Inl err | Inr d_e' \<Rightarrow> add_graphs d_e' grs)"

definition init_d_e :: "node list \<Rightarrow> (string \<times> deps) list" where
  "init_d_e ns = foldl (\<lambda>d n. AList.update (node_id n) [] d) [] ns"

text \<open>
  The execution order: the sender of the first ordered edge, then the receiver of every
  ordered edge; the node ids in declaration order when that leaves the list empty.
\<close>

definition append_edge :: "string list \<Rightarrow> nat \<times> edge \<Rightarrow> string list" where
  "append_edge execution_order ie =
     (if fst ie = 0 then execution_order @ [sender (snd ie)] else execution_order)
     @ [receiver (snd ie)]"

definition execution_order_of :: "edge list \<Rightarrow> node list \<Rightarrow> string list" where
  "execution_order_of es ns =
     (let execution_order = foldl append_edge [] (enumerate 0 es)
      in if execution_order = [] then map node_id ns else execution_order)"

text \<open>
  One round of the loop over the graphs, from line 308 on, for the ordered edges \<open>es\<close>
  that the engine returned. The inner loop reuses the name \<^verbatim>\<open>graph\<close>, so the script is
  stored under the id of the last graph of the model.
\<close>

definition compile_graph ::
  "env \<Rightarrow> model \<Rightarrow> graph \<Rightarrow> edge list \<Rightarrow> (string \<times> string) list \<Rightarrow> globals
     \<Rightarrow> (error + (string \<times> string) list) \<times> globals" where
  "compile_graph E m gr es scripts g =
     (case add_graphs (init_d_e (nodes gr)) (graphs m) of
        Inl e \<Rightarrow> (Inl e, g)
      | Inr d_e \<Rightarrow>
          (case build_script E (nodes gr)
                  (execution_order_of es (nodes gr)) (model_id m) d_e g of
             (Inl e, g') \<Rightarrow> (Inl e, g')
           | (Inr script, g') \<Rightarrow>
               (Inr (AList.update (graph_id (last (graphs m))) script scripts), g')))"

text \<open>
  The whole round: the engine is called first. When it does not return, neither does
  the exporter (the result \<open>None\<close>); when it raises, the exception leaves the exporter
  with the accumulators as they are.
\<close>

definition generate_graph ::
  "env \<Rightarrow> model \<Rightarrow> graph \<Rightarrow> (string \<times> string) list \<Rightarrow> globals
     \<Rightarrow> ((error + (string \<times> string) list) \<times> globals) option" where
  "generate_graph E m gr scripts g =
     (case evaluable_graph E gr of
        Diverges \<Rightarrow> None
      | Raises e \<Rightarrow> Some (Inl e, g)
      | Returns es \<Rightarrow> Some (compile_graph E m gr es scripts g))"

fun generate_graphs ::
  "env \<Rightarrow> model \<Rightarrow> graph list \<Rightarrow> (string \<times> string) list \<Rightarrow> globals
     \<Rightarrow> ((error + (string \<times> string) list) \<times> globals) option" where
  "generate_graphs E m [] scripts g = Some (Inr scripts, g)"
| "generate_graphs E m (gr # grs) scripts g =
     (case generate_graph E m gr scripts g of
        None \<Rightarrow> None
      | Some (Inl e, g') \<Rightarrow> Some (Inl e, g')
      | Some (Inr scripts', g') \<Rightarrow> generate_graphs E m grs scripts' g')"

definition generate_scripts_from_model ::
  "env \<Rightarrow> model \<Rightarrow> globals \<Rightarrow> ((error + (string \<times> string) list) \<times> globals) option" where
  "generate_scripts_from_model E m g = generate_graphs E m (graphs m) [] g"

subsection \<open>The statements of the generated forward pass\<close>







text \<open>
  Running the statements. The values are of any type \<open>'v\<close>; what PyTorch supplies is a
  parameter: \<open>zeros_like\<close>, the sum and the product of two values, \<open>tensor\<close> for
  \<^verbatim>\<open>torch.tensor(w)\<close>, and \<open>call\<close> for the invocation \<^verbatim>\<open>self.N(...)\<close> of a node's unit, which
  takes the argument (if any) and the state of the units and returns the result and
  the new state, or nothing when it raises. The state of a run holds the local
  variables \<^verbatim>\<open>val_N\<close> (unassigned ones are \<open>None\<close>), the state of the units and the
  invocations made so far, each with its node, its argument and its result.
\<close>

record ('v, 'u) runtime =
  zeros_like :: "'v \<Rightarrow> 'v"
  add :: "'v \<Rightarrow> 'v \<Rightarrow> 'v"
  mul :: "'v \<Rightarrow> 'v \<Rightarrow> 'v"
  tensor :: "pyval \<Rightarrow> 'v"
  call :: "string \<Rightarrow> 'v option \<Rightarrow> 'u \<Rightarrow> ('v \<times> 'u) option"

record ('v, 'u) run =
  vals :: "string \<Rightarrow> 'v option"
  units :: 'u
  invocations :: "(string \<times> 'v option \<times> 'v) list"








subsection \<open>The statements of a node's generated forward method\<close>






text \<open>
  Running a unit's forward method. A name is an attribute \<^verbatim>\<open>self.X\<close> or a local variable;
  the evaluation of an expression text in a store is a parameter \<open>ev\<close>, which returns
  nothing when the evaluation raises. One invocation first adds one to
  \<^verbatim>\<open>self.execution_count\<close>, then runs the statements; its local variables start as the
  values passed for the input ports.
\<close>

datatype name = Attr string | Local string







subsection \<open>Concrete inputs\<close>

text \<open>
  An environment for evaluating the exporter on concrete models: a registry with the
  entry \<^verbatim>\<open>linear\<close> of the MDF standard functions, an engine that returns the edges of a
  graph in the order of their declaration, and the elements of \<^verbatim>\<open>param_set\<close> visited in
  the order of their insertion. \<open>engine_env\<close> is the same environment with another
  engine.
\<close>

definition test_env :: env where
  "test_env = \<lparr>mdf_functions = map_of [(''linear'', ''(variable0 * slope + intercept)'')],
                evaluable_graph = (\<lambda>gr. Returns (edges gr)), set_iter = (\<lambda>xs. xs)\<rparr>"

definition engine_env :: "(graph \<Rightarrow> engine_outcome) \<Rightarrow> env" where
  "engine_env f = \<lparr>mdf_functions = map_of [(''linear'', ''(variable0 * slope + intercept)'')],
                    evaluable_graph = f, set_iter = (\<lambda>xs. xs)\<rparr>"

subsection \<open>Orders and edges\<close>

text \<open>
  \<^verbatim>\<open>order.index(x)\<close>: the first position of \<open>x\<close>, and nothing when \<open>x\<close> is not in the list.
  An order respects an edge when both ends are in it and the sender's index is
  strictly less than the receiver's. A list of edges is a chain when every edge starts
  where the edge before it ends.
\<close>

fun index_of :: "'a list \<Rightarrow> 'a \<Rightarrow> nat option" where
  "index_of [] x = None"
| "index_of (y # ys) x = (if x = y then Some 0 else map_option Suc (index_of ys x))"

definition respects_edge :: "string list \<Rightarrow> edge \<Rightarrow> bool" where
  "respects_edge xs e =
     (case (index_of xs (sender e), index_of xs (receiver e)) of
        (Some i, Some j) \<Rightarrow> i < j
      | _ \<Rightarrow> False)"

fun chain :: "edge list \<Rightarrow> bool" where
  "chain [] = True"
| "chain [e] = True"
| "chain (e # f # es) = (receiver e = sender f \<and> chain (f # es))"

definition mk_edge :: "string \<Rightarrow> string \<Rightarrow> edge" where
  "mk_edge s r = \<lparr>sender = s, receiver = r, edge_parameters = None\<rparr>"

definition bare_node :: "string \<Rightarrow> node" where
  "bare_node n = \<lparr>node_id = n, input_ports = [], node_functions = [], parameters = [],
                   output_ports = []\<rparr>"

text \<open>
  A graph with the cycle A\<rightarrow>B\<rightarrow>A. Each node owns one constant parameter, has one input
  port and returns the sum of its parameter and its input.
\<close>

definition const_param :: "string \<Rightarrow> pyval \<Rightarrow> parameter" where
  "const_param i v = \<lparr>param_id = i, param_value = v, is_stateful = False,
                       default_initial_value = PyNone, time_derivative = None,
                       param_function = None, args = None\<rparr>"

definition adder_node :: "string \<Rightarrow> string \<Rightarrow> node" where
  "adder_node n p = \<lparr>node_id = n, input_ports = [\<lparr>port_id = ''x'', port_value = PyNone\<rparr>],
                      node_functions = [], parameters = [const_param p (PyInt 1)],
                      output_ports = [\<lparr>port_id = ''out'', port_value = PyStr (p @ '' + x'')\<rparr>]\<rparr>"

definition cyclic_graph :: graph where
  "cyclic_graph = \<lparr>graph_id = ''g'',
      nodes = [adder_node ''A'' ''a'', adder_node ''B'' ''b''],
      edges = [mk_edge ''A'' ''B'', mk_edge ''B'' ''A'']\<rparr>"

definition cyclic_model :: model where
  "cyclic_model = \<lparr>model_id = ''m'', graphs = [cyclic_graph]\<rparr>"

text \<open>The script that the source writes for this model, line by line.\<close>

definition cyclic_script :: string where
  "cyclic_script =
     ''import torch''
     @ [nl] @ ''import torch.nn as nn''
     @ [nl] @ ''import onnx''
     @ [nl] @ ''import onnxruntime as rt''
     @ [nl] @ ''from math import *''
     @ [nl] @ ''class A(nn.Module):''
     @ [nl, tab] @ ''def __init__(self,a=torch.tensor(1),):''
     @ [nl, tab, tab] @ ''super().__init__()''
     @ [nl, tab, tab] @ ''self.a=a''
     @ [nl, tab, tab] @ ''self.execution_count=torch.tensor(0)''
     @ [nl, tab] @ ''def forward(self,x ):''
     @ [nl, tab, tab] @ ''self.execution_count=self.execution_count+torch.tensor(1)''
     @ [nl, tab, tab] @ ''return self.a + x''
     @ [nl] @ ''class B(nn.Module):''
     @ [nl, tab] @ ''def __init__(self,b=torch.tensor(1),):''
     @ [nl, tab, tab] @ ''super().__init__()''
     @ [nl, tab, tab] @ ''self.b=b''
     @ [nl, tab, tab] @ ''self.execution_count=torch.tensor(0)''
     @ [nl, tab] @ ''def forward(self,x ):''
     @ [nl, tab, tab] @ ''self.execution_count=self.execution_count+torch.tensor(1)''
     @ [nl, tab, tab] @ ''return self.b + x''
     @ [nl] @ ''class Model(nn.Module):''
     @ [nl, tab] @ ''def __init__(self,A, B, ):''
     @ [nl, tab, tab] @ ''super().__init__()''
     @ [nl, tab, tab] @ ''self.A = A''
     @ [nl, tab, tab] @ ''self.B = B''
     @ [nl, tab] @ ''def forward(self, input):''
     @ [nl, tab, tab] @ '' val_A=torch.zeros_like(input)''
     @ [nl, tab, tab] @ '' val_B=torch.zeros_like(input)''
     @ [nl, tab, tab] @ '' val_A=torch.zeros_like(input)''
     @ [nl, tab, tab] @ '' val_A=val_A+self.A(val_B)''
     @ [nl, tab, tab] @ '' val_B=val_B+self.B(val_A)''
     @ [nl, nl, tab, tab] @ '' return val_A,val_B,val_A,''
     @ [nl] @ ''model = Model(A=A(),B=B(),)''
     @ [nl] @ ''model=torch.jit.script(model)''
     @ [nl] @ ''dummy_input =torch.tensor(0.0)''
     @ [nl] @ ''output = model(dummy_input)''
     @ [nl] @ ''torch.onnx.export(model,dummy_input,'' @ [squote] @ ''m.onnx'' @ [squote] @ '',verbose=True,input_names=[],example_outputs=output,opset_version=9)''
     @ [nl] @ ''onnx_model = onnx.load('' @ [squote] @ ''m.onnx'' @ [squote] @ '')''
     @ [nl] @ ''onnx.checker.check_model(onnx_model)''
     @ [nl] @ ''sess = rt.InferenceSession('' @ [squote] @ ''m.onnx'' @ [squote] @ '')''
     @ [nl] @ ''res = sess.run(None, {sess.get_inputs()[0].name: dummy_input.numpy()})''"

text \<open>The errors that stand for exceptions of Python itself.\<close>

definition python_exception :: "error \<Rightarrow> bool" where
  "python_exception e = (e \<noteq> CyclicGraph \<and> e \<noteq> UnknownFunction)"

text \<open>Parameters bound to a function, and a stateful parameter, for concrete nodes.\<close>

definition func_param :: "string \<Rightarrow> string \<Rightarrow> (string \<times> pyval) list \<Rightarrow> parameter" where
  "func_param i f a = \<lparr>param_id = i, param_value = PyNone, is_stateful = False,
                        default_initial_value = PyNone, time_derivative = None,
                        param_function = Some f, args = Some a\<rparr>"

definition stateful_param :: "string \<Rightarrow> pyval \<Rightarrow> pyval \<Rightarrow> string option \<Rightarrow> parameter" where
  "stateful_param i v d td = \<lparr>param_id = i, param_value = v, is_stateful = True,
                               default_initial_value = d, time_derivative = td,
                               param_function = None, args = None\<rparr>"

definition param_node :: "string \<Rightarrow> parameter list \<Rightarrow> string \<Rightarrow> node" where
  "param_node n ps out = \<lparr>node_id = n, input_ports = [], node_functions = [], parameters = ps,
                           output_ports = [\<lparr>port_id = ''out'', port_value = PyStr out\<rparr>]\<rparr>"

subsection \<open>The initial state of a unit, in the words of the amended claim\<close>

text \<open>
  The default that the constructor of a node's class gives to the argument of a
  parameter: the parameter's value when it is not stateful, zero when it is stateful
  and its value is true, its declared default initial value when it is stateful and
  its value is \<^verbatim>\<open>None\<close>, zero or empty. A parameter that is bound to a function and is
  not stateful gets no argument. \<open>attr_line\<close> is the assignment that stores the
  argument in the unit.
\<close>

definition initial_value :: "parameter \<Rightarrow> pyval" where
  "initial_value p =
     (if \<not> is_stateful p then param_value p
      else if truthy (param_value p) then PyInt 0
      else default_initial_value p)"

definition ctor_default :: "parameter \<Rightarrow> string" where
  "ctor_default p =
     (if \<not> is_stateful p \<and> truthy_opt (param_function p) then []
      else param_id p @ ''=torch.tensor('' @ py_str (initial_value p) @ ''),'')"

definition attr_line :: "parameter \<Rightarrow> string" where
  "attr_line p =
     (if truthy_opt (param_function p) then []
      else [nl, tab, tab] @ ''self.'' @ param_id p @ ''='' @ param_id p)"

subsection \<open>What a run reads and writes of the accumulators\<close>

text \<open>
  The parameters that the first loop of \<^verbatim>\<open>get_module_declaration_text\<close> visits for a
  node, and for a whole model. A parameter is settled in a state of the accumulators
  when visiting it changes nothing: it is not named \<^verbatim>\<open>input_level\<close>, and its id is in
  \<^verbatim>\<open>param_set\<close> already unless it is bound to a function.
\<close>

definition node_reads :: "node \<Rightarrow> parameter list" where
  "node_reads n = (if parameters n \<noteq> [] \<and> node_functions n = [] then parameters n else [])"

definition visited :: "model \<Rightarrow> parameter list" where
  "visited m = concat (map (\<lambda>gr. concat (map node_reads (nodes gr))) (graphs m))"

definition settled :: "globals \<Rightarrow> parameter \<Rightarrow> bool" where
  "settled g p = (param_id p \<noteq> ''input_level''
                  \<and> (truthy_opt (param_function p) \<or> param_id p \<in> set (param_set g)))"

definition model_settled :: "model \<Rightarrow> globals \<Rightarrow> bool" where
  "model_settled m g = list_all (settled g) (visited m)"

definition no_input_level :: "model \<Rightarrow> bool" where
  "no_input_level m = list_all (\<lambda>p. param_id p \<noteq> ''input_level'') (visited m)"

text \<open>
  The values that visiting a list of parameters appends to \<^verbatim>\<open>graph_input\<close>, and the ids
  that it adds to \<^verbatim>\<open>param_set\<close>.
\<close>

definition inputs_of :: "parameter list \<Rightarrow> pyval list" where
  "inputs_of ps = map param_value (filter (\<lambda>p. param_id p = ''input_level'') ps)"

definition owned_ids :: "parameter list \<Rightarrow> string list" where
  "owned_ids ps = map param_id (filter (\<lambda>p. \<not> truthy_opt (param_function p)) ps)"

text \<open>
  The accumulators \<open>g'\<close> are \<open>g\<close> extended by visiting the parameters \<open>ps\<close>; and
  \<open>g'\<close> extends \<open>g\<close>, by whatever.
\<close>

definition extended_by :: "globals \<Rightarrow> parameter list \<Rightarrow> globals \<Rightarrow> bool" where
  "extended_by g ps g' = (not_self g' = not_self g
       \<and> graph_input g' = graph_input g @ inputs_of ps
       \<and> set (param_set g') = set (param_set g) \<union> set (owned_ids ps))"

definition extends :: "globals \<Rightarrow> globals \<Rightarrow> bool" where
  "extends g g' = (not_self g' = not_self g
       \<and> prefix (graph_input g) (graph_input g')
       \<and> set (param_set g) \<subseteq> set (param_set g'))"

text \<open>
  Three more models: one whose first node has a parameter named \<^verbatim>\<open>input_level\<close>, one with
  a single node that owns the parameter \<^verbatim>\<open>w\<close>, and one with a single node whose output
  expression reads its input port \<^verbatim>\<open>weight\<close>.
\<close>

definition input_model :: model where
  "input_model = \<lparr>model_id = ''m'', graphs = [\<lparr>graph_id = ''g'',
      nodes = [param_node ''A'' [const_param ''input_level'' (PyInt 1)] ''input_level'',
               adder_node ''B'' ''b''],
      edges = [mk_edge ''A'' ''B'']\<rparr>]\<rparr>"

definition w_model :: model where
  "w_model = \<lparr>model_id = ''m1'', graphs = [\<lparr>graph_id = ''g1'',
      nodes = [param_node ''W'' [const_param ''w'' (PyInt 1)] ''w''], edges = []\<rparr>]\<rparr>"

definition weight_model :: model where
  "weight_model = \<lparr>model_id = ''m2'', graphs = [\<lparr>graph_id = ''g2'',
      nodes = [\<lparr>node_id = ''B'', input_ports = [\<lparr>port_id = ''weight'', port_value = PyNone\<rparr>],
                node_functions = [], parameters = [const_param ''b'' (PyInt 1)],
                output_ports = [\<lparr>port_id = ''out'', port_value = PyStr ''b * weight''\<rparr>]\<rparr>],
      edges = []\<rparr>]\<rparr>"







section \<open>Properties\<close>

subsection \<open>Nodes that get a bare class\<close>

text \<open>
  C10. For every node whose parameter list is empty or whose list of functions is not
  empty, \<^verbatim>\<open>get_module_declaration_text\<close> returns the class header line alone, with no
  \<^verbatim>\<open>__init__\<close>, no \<^verbatim>\<open>forward\<close> and no execution counter, and leaves the accumulators
  untouched.
\<close>

theorem bare_class_header:
  "parameters nd = [] \<or> node_functions nd \<noteq> [] \<Longrightarrow>
   get_module_declaration_text E name nd eo g
     = (Inr (nl # ''class '' @ name @ ''(nn.Module):''), g)"
  by (auto simp: get_module_declaration_text_def class_header_def)

theorem bare_class_header_witness:
  "(parameters \<lparr>node_id = ''A'', input_ports = [], node_functions = [''f''],
       parameters = [], output_ports = []\<rparr> = []
     \<or> node_functions \<lparr>node_id = ''A'', input_ports = [], node_functions = [''f''],
       parameters = [], output_ports = []\<rparr> \<noteq> [])
   \<and> get_module_declaration_text test_env ''A''
        \<lparr>node_id = ''A'', input_ports = [], node_functions = [''f''],
           parameters = [], output_ports = []\<rparr> [] fresh_globals
     = (Inr (nl # ''class A(nn.Module):''), fresh_globals)"
  using bare_class_header [of "\<lparr>node_id = ''A'', input_ports = [], node_functions = [''f''],
       parameters = [], output_ports = []\<rparr>" test_env "''A''" "[]" fresh_globals]
  by simp

subsection \<open>Substring search and replacement\<close>

lemma py_in_Nil [simp]: "py_in [] s"
  by (cases s) auto

lemma py_in_iff: "py_in i s \<longleftrightarrow> (\<exists>pre post. s = pre @ i @ post)"
proof (induction s)
  case Nil
  then show ?case by auto
next
  case (Cons c cs)
  show ?case
  proof
    assume "py_in i (c # cs)"
    then consider "prefix i (c # cs)" | "py_in i cs" by auto
    then show "\<exists>pre post. c # cs = pre @ i @ post"
    proof cases
      case 1
      then obtain post where "c # cs = i @ post" by (auto simp: prefix_def)
      then have "c # cs = [] @ i @ post" by simp
      then show ?thesis by blast
    next
      case 2
      with Cons.IH obtain pre post where "cs = pre @ i @ post" by blast
      then have "c # cs = (c # pre) @ i @ post" by simp
      then show ?thesis by blast
    qed
  next
    assume "\<exists>pre post. c # cs = pre @ i @ post"
    then obtain pre post where eq: "c # cs = pre @ i @ post" by blast
    show "py_in i (c # cs)"
    proof (cases pre)
      case Nil
      with eq have "prefix i (c # cs)" by (simp add: prefix_def)
      then show ?thesis by simp
    next
      case (Cons a pre')
      with eq have "cs = pre' @ i @ post" by simp
      with Cons.IH have "py_in i cs" by blast
      then show ?thesis by simp
    qed
  qed
qed

lemma py_in_Cons: "py_in i (c # cs) \<Longrightarrow> i \<noteq> [] \<Longrightarrow> \<not> prefix i (c # cs) \<Longrightarrow> py_in i cs"
  by simp

lemma replace_from_absent: "\<not> py_in i s \<Longrightarrow> replace_from i new s = s"
  by (induction s) auto

lemma py_replace_absent: "\<not> py_in i s \<Longrightarrow> py_replace s i new = s"
  by (cases "i = []") (auto simp: py_replace_def replace_from_absent)

lemma sym_step_absent: "\<not> py_in i s \<Longrightarrow> sym_step i s = s"
  by (simp add: sym_step_def)

lemma sym_str_absent: "\<forall>i\<in>set is. \<not> py_in i s \<Longrightarrow> sym_str is s = s"
  by (induction "is") (auto simp: sym_step_def)

lemma sym_loop_str: "sym_loop is (PyStr s) = Inr (PyStr (sym_str is s))"
  by (induction "is" arbitrary: s) auto

lemma bind_args_absent: "\<forall>kv\<in>set kvs. \<not> py_in (fst kv) e \<Longrightarrow> bind_args kvs e = e"
  by (induction kvs) (auto simp: bind_step_def)

lemma prefix_within: "prefix i (xs @ ys) \<Longrightarrow> length i \<le> length xs \<Longrightarrow> prefix i xs"
  by (metis prefix_append prefix_length_prefix prefixI prefix_order.order_refl append.right_neutral prefix_def)

lemma replace_from_first:
  "i \<noteq> [] \<Longrightarrow> \<not> py_in i (pre @ butlast i) \<Longrightarrow>
   replace_from i new (pre @ i @ post) = pre @ new @ replace_from i new post"
proof (induction pre)
  case Nil
  then obtain c cs where i: "i = c # cs" by (cases i) auto
  then show ?case by simp
next
  case (Cons a pre)
  have np: "\<not> prefix i (a # pre @ i @ post)"
  proof
    assume p: "prefix i (a # pre @ i @ post)"
    have "a # pre @ i @ post = (a # pre @ butlast i) @ (last i # post)"
      using Cons.prems(1) by simp
    moreover have "length i \<le> length (a # pre @ butlast i)" by simp
    ultimately have "prefix i (a # pre @ butlast i)"
      using p prefix_within by metis
    then have "py_in i ((a # pre) @ butlast i)" by simp
    with Cons.prems(2) show False by simp
  qed
  have "\<not> py_in i (pre @ butlast i)" using Cons.prems(2) by simp
  with Cons.IH Cons.prems(1) have "replace_from i new (pre @ i @ post) = pre @ new @ replace_from i new post"
    by simp
  with np show ?case by simp
qed

subsection \<open>ExpressionTranslator\<close>

lemma sym_str_foldl:
  "sym_str is v
     = foldl (\<lambda>v i. if py_in i v then py_replace v i (''self.'' @ i) else v) v is"
  by (induction "is" arbitrary: v) (auto simp: sym_step_def)

lemma bind_args_foldl:
  "bind_args kvs e
     = foldl (\<lambda>v kv. if py_in (fst kv) v then py_replace v (fst kv) (py_str (snd kv)) else v) e kvs"
  by (induction kvs arbitrary: e) (auto simp: bind_step_def)

text \<open>
  C3, as the code has it. \<^verbatim>\<open>sym\<close> and \<^verbatim>\<open>func_args\<close> replace substrings, not whole tokens,
  one identifier after the other: \<^verbatim>\<open>sym\<close> takes the identifiers in the iteration order
  of \<^verbatim>\<open>param_set\<close>, \<^verbatim>\<open>func_args\<close> the keys in the order of the argument dict, with no
  preference for longer ones, and each works on the text that the ones before it left.
  An identifier that occurs in that text as a substring is replaced by \<^verbatim>\<open>self.<id>\<close>, or
  by the string of the bound value, at its leftmost occurrence, whatever characters
  stand before and after it, and then in the same way in the rest of the text behind
  that occurrence; a text in which it does not occur stays as it is. (An empty
  identifier is inserted before every character and at the end.)
\<close>

theorem translator_replaces_substrings:
  "sym E g (PyStr e)
     = Inr (PyStr (foldl (\<lambda>v i. if py_in i v then py_replace v i (''self.'' @ i) else v) e
                     (set_iter E (param_set g))))
   \<and> func_args t (Some kvs)
     = Inr (foldl (\<lambda>v kv. if py_in (fst kv) v
                           then py_replace v (fst kv) (py_str (snd kv)) else v) t kvs)
   \<and> (py_in i s \<longleftrightarrow> (\<exists>pre post. s = pre @ i @ post))
   \<and> (\<not> py_in i s \<longrightarrow> py_replace s i new = s)
   \<and> (i \<noteq> [] \<and> \<not> py_in i (pre @ butlast i) \<longrightarrow>
        py_replace (pre @ i @ post) i new = pre @ new @ py_replace post i new)
   \<and> py_replace s [] new = new @ concat (map (\<lambda>c. c # new) s)"
proof (intro conjI impI)
  show "sym E g (PyStr e)
     = Inr (PyStr (foldl (\<lambda>v i. if py_in i v then py_replace v i (''self.'' @ i) else v) e
                     (set_iter E (param_set g))))"
    by (simp add: sym_def sym_loop_str sym_str_foldl)
  show "func_args t (Some kvs)
     = Inr (foldl (\<lambda>v kv. if py_in (fst kv) v
                           then py_replace v (fst kv) (py_str (snd kv)) else v) t kvs)"
    by (simp add: func_args_def bind_args_foldl)
  show "py_in i s \<longleftrightarrow> (\<exists>pre post. s = pre @ i @ post)"
    by (rule py_in_iff)
  show "py_replace s [] new = new @ concat (map (\<lambda>c. c # new) s)"
    by (simp add: py_replace_def)
next
  assume "\<not> py_in i s"
  then show "py_replace s i new = s" by (rule py_replace_absent)
next
  assume "i \<noteq> [] \<and> \<not> py_in i (pre @ butlast i)"
  then show "py_replace (pre @ i @ post) i new = pre @ new @ py_replace post i new"
    by (simp add: py_replace_def replace_from_first)
qed

theorem translator_replaces_substrings_witness:
  "sym test_env (fresh_globals\<lparr>param_set := [''x'', ''se'']\<rparr>) (PyStr ''x'')
     = Inr (PyStr ''self.self.x'')
   \<and> sym test_env (fresh_globals\<lparr>param_set := [''se'', ''x'']\<rparr>) (PyStr ''x'')
     = Inr (PyStr ''self.x'')
   \<and> func_args ''a + b'' (Some [(''a'', PyStr ''b''), (''b'', PyInt 1)]) = Inr ''1 + 1''
   \<and> func_args ''a + b'' (Some [(''b'', PyInt 1), (''a'', PyStr ''b'')]) = Inr ''b + 1''
   \<and> py_in ''w'' ''2*weight''
   \<and> \<not> py_in ''w'' ''x+y''
   \<and> py_replace ''x+y'' ''w'' ''3'' = ''x+y''
   \<and> ''w'' \<noteq> [] \<and> \<not> py_in ''w'' (''2*'' @ butlast ''w'')
   \<and> py_replace (''2*'' @ ''w'' @ ''eight+w'') ''w'' ''3'' = ''2*'' @ ''3'' @ ''eight+3''
   \<and> py_replace ''ab'' [] ''-'' = ''-a-b-''"
proof -
  have 1: "\<not> py_in ''w'' ''x+y''" by simp
  have 2: "''w'' \<noteq> [] \<and> \<not> py_in ''w'' (''2*'' @ butlast ''w'')" by simp
  have 3: "py_replace ''eight+w'' ''w'' ''3'' = ''eight+3''" by (simp add: py_replace_def)
  have 4: "py_in ''w'' ''2*weight''" by simp
  from translator_replaces_substrings
         [where E = test_env and g = "fresh_globals\<lparr>param_set := [''x'', ''se'']\<rparr>"
            and e = "''x''" and t = "''a + b''" and kvs = "[(''a'', PyStr ''b''), (''b'', PyInt 1)]"
            and i = "''w''" and s = "''x+y''" and new = "''3''" and pre = "''2*''"
            and post = "''eight+w''"]
  have a: "sym test_env (fresh_globals\<lparr>param_set := [''x'', ''se'']\<rparr>) (PyStr ''x'')
             = Inr (PyStr ''self.self.x'')"
    and b: "func_args ''a + b'' (Some [(''a'', PyStr ''b''), (''b'', PyInt 1)]) = Inr ''1 + 1''"
    and c: "py_replace ''x+y'' ''w'' ''3'' = ''x+y''"
    and d: "py_replace (''2*'' @ ''w'' @ ''eight+w'') ''w'' ''3'' = ''2*'' @ ''3'' @ ''eight+3''"
    using 1 2 3
    by (simp_all add: test_env_def fresh_globals_def py_replace_def int_str_def nat_digits.simps)
  from translator_replaces_substrings
         [where E = test_env and g = "fresh_globals\<lparr>param_set := [''se'', ''x'']\<rparr>"
            and e = "''x''" and t = "''a + b''" and kvs = "[(''b'', PyInt 1), (''a'', PyStr ''b'')]"
            and i = "[]" and s = "''ab''" and new = "''-''"]
  have e: "sym test_env (fresh_globals\<lparr>param_set := [''se'', ''x'']\<rparr>) (PyStr ''x'')
             = Inr (PyStr ''self.x'')"
    and f: "func_args ''a + b'' (Some [(''b'', PyInt 1), (''a'', PyStr ''b'')]) = Inr ''b + 1''"
    and h: "py_replace ''ab'' [] ''-'' = ''-a-b-''"
    by (simp_all add: test_env_def fresh_globals_def py_replace_def int_str_def nat_digits.simps)
  from a b c d e f h 1 2 4 show ?thesis by simp
qed

text \<open>
  C3 as stated fails: with the owned parameter \<^verbatim>\<open>w\<close>, the identifier \<^verbatim>\<open>weight\<close> is rewritten
  to \<^verbatim>\<open>self.weight\<close>; with both \<^verbatim>\<open>w\<close> and \<^verbatim>\<open>weight\<close> owned it becomes \<^verbatim>\<open>self.self.weight\<close> in
  either iteration order; and binding the placeholder \<^verbatim>\<open>w\<close> to 2 turns \<^verbatim>\<open>weight + w\<close> into
  \<^verbatim>\<open>2eight + 2\<close>.
\<close>

theorem whole_token_counterexample:
  "sym test_env (fresh_globals\<lparr>param_set := [''w'']\<rparr>) (PyStr ''weight'')
     = Inr (PyStr ''self.weight'')
   \<and> sym test_env (fresh_globals\<lparr>param_set := [''w'', ''weight'']\<rparr>) (PyStr ''weight'')
     = Inr (PyStr ''self.self.weight'')
   \<and> sym test_env (fresh_globals\<lparr>param_set := [''weight'', ''w'']\<rparr>) (PyStr ''weight'')
     = Inr (PyStr ''self.self.weight'')
   \<and> func_args ''weight + w'' (Some [(''w'', PyInt 2)]) = Inr ''2eight + 2''"
  by (simp add: sym_def test_env_def fresh_globals_def sym_step_def py_replace_def
        func_args_def bind_step_def int_str_def nat_digits.simps)

subsection \<open>The execution order\<close>

lemma foldl_append_edge:
  "foldl append_edge acc (enumerate (Suc n) es) = acc @ map receiver es"
  by (induction es arbitrary: acc n) (auto simp: append_edge_def)

lemma execution_order_closed:
  "execution_order_of es ns =
     (case es of [] \<Rightarrow> map node_id ns | e # es' \<Rightarrow> sender e # map receiver (e # es'))"
  by (cases es) (auto simp: execution_order_of_def append_edge_def foldl_append_edge)

lemma index_of_nth: "distinct xs \<Longrightarrow> i < length xs \<Longrightarrow> index_of xs (xs ! i) = Some i"
proof (induction xs arbitrary: i)
  case Nil
  then show ?case by simp
next
  case (Cons y ys)
  show ?case
  proof (cases i)
    case 0
    then show ?thesis by simp
  next
    case (Suc j)
    with Cons.prems have "j < length ys" "ys ! j \<noteq> y" "distinct ys" by auto
    with Cons.IH Suc show ?thesis by simp
  qed
qed

lemma chain_senders: "chain (e # es) \<Longrightarrow> j < length (e # es) \<Longrightarrow>
   sender ((e # es) ! j) = (sender e # map receiver (e # es)) ! j"
proof (induction es arbitrary: e j)
  case Nil
  then show ?case by simp
next
  case (Cons f fs)
  show ?case
  proof (cases j)
    case 0
    then show ?thesis by simp
  next
    case (Suc k)
    with Cons.prems have "chain (f # fs)" "k < length (f # fs)" "receiver e = sender f" by auto
    with Cons.IH have "sender ((f # fs) ! k) = (sender f # map receiver (f # fs)) ! k" by blast
    with Suc \<open>receiver e = sender f\<close> show ?thesis by simp
  qed
qed

text \<open>
  C1, as the code has it. The execution order is the sender of the first ordered edge
  followed by the receivers of all ordered edges, in their order; with no ordered edge
  it is the node ids in declaration order. When the ordered edges form a chain that
  visits no node twice, the order respects every edge: the sender's index is strictly
  less than the receiver's.
\<close>

theorem execution_order_of_chain:
  "execution_order_of es ns
     = (case es of [] \<Rightarrow> map node_id ns | e # es' \<Rightarrow> sender e # map receiver (e # es'))
   \<and> (es \<noteq> [] \<and> chain es \<and> distinct (execution_order_of es ns) \<longrightarrow>
        (\<forall>e\<in>set es. respects_edge (execution_order_of es ns) e))"
proof (intro conjI impI ballI)
  show "execution_order_of es ns
     = (case es of [] \<Rightarrow> map node_id ns | e # es' \<Rightarrow> sender e # map receiver (e # es'))"
    by (rule execution_order_closed)
next
  fix e
  assume h: "es \<noteq> [] \<and> chain es \<and> distinct (execution_order_of es ns)" and e: "e \<in> set es"
  from h obtain f fs where es: "es = f # fs" by (cases es) auto
  define ord where "ord = sender f # map receiver (f # fs)"
  have eo: "execution_order_of es ns = ord"
    by (simp add: execution_order_closed es ord_def)
  from e obtain j where j: "j < length es" "es ! j = e" by (auto simp: in_set_conv_nth)
  have d: "distinct ord" using h eo by simp
  have len: "length ord = Suc (length es)" by (simp add: ord_def es)
  have s: "sender e = ord ! j"
    using chain_senders [of f fs j] h j es by (simp add: ord_def)
  have r: "receiver e = ord ! Suc j"
    using j es by (simp add: ord_def del: nth_Cons_Suc) (metis length_Cons list.simps(9) nth_map)
  have "index_of ord (sender e) = Some j"
    using index_of_nth [OF d, of j] j len s by simp
  moreover have "index_of ord (receiver e) = Some (Suc j)"
    using index_of_nth [OF d, of "Suc j"] j len r by simp
  ultimately show "respects_edge (execution_order_of es ns) e"
    by (simp add: respects_edge_def eo)
qed

theorem execution_order_of_chain_witness:
  "[mk_edge ''A'' ''B'', mk_edge ''B'' ''C''] \<noteq> []
   \<and> chain [mk_edge ''A'' ''B'', mk_edge ''B'' ''C'']
   \<and> distinct (execution_order_of [mk_edge ''A'' ''B'', mk_edge ''B'' ''C'']
                 [bare_node ''C'', bare_node ''B'', bare_node ''A''])
   \<and> execution_order_of [mk_edge ''A'' ''B'', mk_edge ''B'' ''C'']
        [bare_node ''C'', bare_node ''B'', bare_node ''A''] = [''A'', ''B'', ''C'']
   \<and> respects_edge (execution_order_of [mk_edge ''A'' ''B'', mk_edge ''B'' ''C'']
                      [bare_node ''C'', bare_node ''B'', bare_node ''A'']) (mk_edge ''A'' ''B'')
   \<and> respects_edge (execution_order_of [mk_edge ''A'' ''B'', mk_edge ''B'' ''C'']
                      [bare_node ''C'', bare_node ''B'', bare_node ''A'']) (mk_edge ''B'' ''C'')"
  using execution_order_of_chain [of "[mk_edge ''A'' ''B'', mk_edge ''B'' ''C'']"
          "[bare_node ''C'', bare_node ''B'', bare_node ''A'']"]
  by (simp add: mk_edge_def execution_order_closed)

text \<open>
  C1 as stated fails. In the acyclic graph with the edges A\<rightarrow>C and B\<rightarrow>C the order is
  A, C, C or B, C, C, whichever edge comes first: one sender has no index at all. In
  the graph with the nodes A, B, D and the edge A\<rightarrow>B the node D, which no edge
  constrains, is not in the order.
\<close>

theorem topological_order_counterexample:
  "execution_order_of [mk_edge ''A'' ''C'', mk_edge ''B'' ''C'']
       [bare_node ''A'', bare_node ''B'', bare_node ''C''] = [''A'', ''C'', ''C'']
   \<and> \<not> respects_edge (execution_order_of [mk_edge ''A'' ''C'', mk_edge ''B'' ''C'']
                    [bare_node ''A'', bare_node ''B'', bare_node ''C'']) (mk_edge ''B'' ''C'')
   \<and> execution_order_of [mk_edge ''B'' ''C'', mk_edge ''A'' ''C'']
       [bare_node ''A'', bare_node ''B'', bare_node ''C''] = [''B'', ''C'', ''C'']
   \<and> \<not> respects_edge (execution_order_of [mk_edge ''B'' ''C'', mk_edge ''A'' ''C'']
                    [bare_node ''A'', bare_node ''B'', bare_node ''C'']) (mk_edge ''A'' ''C'')
   \<and> execution_order_of [mk_edge ''A'' ''B'']
       [bare_node ''A'', bare_node ''B'', bare_node ''D''] = [''A'', ''B'']"
  by (simp add: execution_order_closed mk_edge_def respects_edge_def)

subsection \<open>Which errors the exporter raises\<close>

lemma sym_loop_error: "sym_loop is v = Inl e \<Longrightarrow> e = TypeError"
  by (induction "is" arbitrary: v) (auto split: pyval.splits)

lemma sym_error: "sym E g v = Inl e \<Longrightarrow> e = TypeError"
  by (auto simp: sym_def dest: sym_loop_error)

lemma func_args_error: "func_args t a = Inl e \<Longrightarrow> e = TypeError"
  by (auto simp: func_args_def split: option.splits)

lemma init_param_error: "init_param p t g = (Inl e, g') \<Longrightarrow> e = AttributeError"
  by (auto simp: init_param_def Let_def split: if_splits)

lemma init_params_error: "init_params ps t g = (Inl e, g') \<Longrightarrow> e = AttributeError"
proof (induction ps arbitrary: t g)
  case Nil
  then show ?case by simp
next
  case (Cons p ps)
  then show ?case
    by (auto split: prod.splits sum.splits dest: init_param_error)
qed

lemma stateful_update_error: "stateful_update E g p t = Inl e \<Longrightarrow> e = TypeError"
  by (auto simp: stateful_update_def split: if_splits sum.splits dest: sym_error)

lemma function_binding_error:
  "function_binding E g p te = Inl e \<Longrightarrow> e = TypeError \<or> e = UnboundLocalError"
  by (auto simp: function_binding_def Let_def split: if_splits sum.splits option.splits
      dest: sym_error func_args_error)

lemma forward_param_error:
  "forward_param E g p te = Inl e \<Longrightarrow> e = TypeError \<or> e = UnboundLocalError"
  by (auto simp: forward_param_def split: sum.splits
      dest: stateful_update_error function_binding_error)

lemma forward_params_error:
  "forward_params E g ps te = Inl e \<Longrightarrow> e = TypeError \<or> e = UnboundLocalError"
proof (induction ps arbitrary: te)
  case Nil
  then show ?case by simp
next
  case (Cons p ps)
  show ?case
  proof (cases "forward_param E g p te")
    case (Inl e')
    with Cons.prems have "e' = e" by simp
    with Inl show ?thesis using forward_param_error by blast
  next
    case (Inr te')
    with Cons.prems have "forward_params E g ps te' = Inl e" by simp
    with Cons.IH show ?thesis by blast
  qed
qed

lemma return_line_error: "return_line E g ops t = Inl e \<Longrightarrow> e = IndexError \<or> e = TypeError"
  by (auto simp: return_line_def split: list.splits if_splits sum.splits dest: sym_error)

lemma get_module_declaration_text_error:
  assumes "get_module_declaration_text E name nd eo g = (Inl e, g')"
  shows "python_exception e"
proof -
  have "e = AttributeError \<or> e = TypeError \<or> e = UnboundLocalError \<or> e = IndexError"
    using assms
    by (auto simp: get_module_declaration_text_def Let_def
        split: if_splits prod.splits sum.splits
        dest: init_params_error forward_params_error return_line_error)
  then show ?thesis by (auto simp: python_exception_def)
qed

lemma declare_modules_error:
  "declare_modules E ns eo t g = (Inl e, g') \<Longrightarrow> python_exception e"
proof (induction ns arbitrary: t g)
  case Nil
  then show ?case by simp
next
  case (Cons n ns)
  obtain r g1 where r: "get_module_declaration_text E (node_id n) n eo g = (r, g1)"
    by (cases "get_module_declaration_text E (node_id n) n eo g")
  show ?case
  proof (cases r)
    case (Inl e')
    with r Cons.prems have "e' = e" by simp
    with Inl r show ?thesis using get_module_declaration_text_error by blast
  next
    case (Inr d)
    with r Cons.prems have "declare_modules E ns eo (t @ d) g1 = (Inl e, g')" by simp
    with Cons.IH show ?thesis by blast
  qed
qed

lemma return_items_error: "return_items d ns t = Inl e \<Longrightarrow> e = KeyError"
  by (induction ns arbitrary: t) (auto split: option.splits)

lemma generate_main_forward_error: "generate_main_forward ns eo d_e = Inl e \<Longrightarrow> e = KeyError"
  by (auto simp: generate_main_forward_def Let_def dest: return_items_error)

lemma build_script_error:
  assumes "build_script E ns eo mid d_e g = (Inl e, g')"
  shows "python_exception e"
proof -
  obtain r g1 where r: "declare_modules E ns eo [] g = (r, g1)"
    by (cases "declare_modules E ns eo [] g")
  show ?thesis
  proof (cases r)
    case (Inl e')
    with r assms have "e' = e" by (simp add: build_script_def)
    with Inl r show ?thesis using declare_modules_error by blast
  next
    case (Inr t)
    with r assms have "generate_main_forward ns eo d_e = Inl e"
      by (auto simp: build_script_def Let_def split: sum.splits if_splits)
    then have "e = KeyError" by (rule generate_main_forward_error)
    then show ?thesis by (simp add: python_exception_def)
  qed
qed

lemma add_edge_error: "add_edge gr d e = Inl err \<Longrightarrow> err = AttributeError \<or> err = KeyError"
  by (auto simp: add_edge_def split: option.splits)

lemma add_edges_error: "add_edges gr d es = Inl err \<Longrightarrow> err = AttributeError \<or> err = KeyError"
proof (induction es arbitrary: d)
  case Nil
  then show ?case by simp
next
  case (Cons e es)
  then show ?case
    by (cases "add_edge gr d e") (auto dest: add_edge_error)
qed

lemma add_graphs_error: "add_graphs d grs = Inl err \<Longrightarrow> err = AttributeError \<or> err = KeyError"
proof (induction grs arbitrary: d)
  case Nil
  then show ?case by simp
next
  case (Cons gr grs)
  then show ?case
    by (cases "add_edges gr d (edges gr)") (auto dest: add_edges_error)
qed

lemma compile_graph_error:
  assumes "compile_graph E m gr es scripts g = (Inl e, g')"
  shows "python_exception e"
proof (cases "add_graphs (init_d_e (nodes gr)) (graphs m)")
  case (Inl err)
  with assms have "err = e" by (simp add: compile_graph_def)
  with Inl have "e = AttributeError \<or> e = KeyError" using add_graphs_error by blast
  then show ?thesis by (auto simp: python_exception_def)
next
  case (Inr d_e)
  with assms obtain g1 where
    "build_script E (nodes gr) (execution_order_of es (nodes gr)) (model_id m) d_e g = (Inl e, g1)"
    by (auto simp: compile_graph_def split: prod.splits sum.splits)
  then show ?thesis by (rule build_script_error)
qed

text \<open>
  An error of a run is an exception of Python raised by a statement of the exporter,
  or it is what the engine raised for one of the graphs.
\<close>

lemma generate_graphs_error:
  "generate_graphs E m grs scripts g = Some (Inl e, g') \<Longrightarrow>
   python_exception e \<or> (\<exists>gr\<in>set grs. evaluable_graph E gr = Raises e)"
proof (induction grs arbitrary: scripts g)
  case Nil
  then show ?case by simp
next
  case (Cons gr grs)
  show ?case
  proof (cases "evaluable_graph E gr")
    case Diverges
    with Cons.prems show ?thesis by (simp add: generate_graph_def)
  next
    case (Raises x)
    with Cons.prems have "x = e" by (simp add: generate_graph_def)
    with Raises show ?thesis by simp
  next
    case (Returns es)
    obtain r g1 where r: "compile_graph E m gr es scripts g = (r, g1)"
      by (cases "compile_graph E m gr es scripts g")
    show ?thesis
    proof (cases r)
      case (Inl e')
      with r Returns Cons.prems have "e' = e" by (simp add: generate_graph_def)
      with Inl r have "python_exception e" using compile_graph_error by blast
      then show ?thesis by simp
    next
      case (Inr s')
      with r Returns Cons.prems have "generate_graphs E m grs s' g1 = Some (Inl e, g')"
        by (simp add: generate_graph_def)
      with Cons.IH show ?thesis by auto
    qed
  qed
qed

lemma generate_scripts_error:
  "generate_scripts_from_model E m g = Some (Inl e, g') \<Longrightarrow>
   python_exception e \<or> (\<exists>gr\<in>set (graphs m). evaluable_graph E gr = Raises e)"
  by (simp add: generate_scripts_from_model_def generate_graphs_error)

subsection \<open>When the graph-level steps succeed\<close>

lemma get_node_in:
  "i \<in> node_id ` set (nodes gr) \<Longrightarrow> \<exists>n. get_node gr i = Some n \<and> node_id n = i"
proof -
  assume "i \<in> node_id ` set (nodes gr)"
  then have "find (\<lambda>n. node_id n = i) (nodes gr) \<noteq> None"
    by (auto simp: find_None_iff)
  then obtain n where n: "find (\<lambda>n. node_id n = i) (nodes gr) = Some n" by blast
  then have "node_id n = i" by (auto simp: find_Some_iff)
  with n show ?thesis by (simp add: get_node_def)
qed

lemma dom_alist_update: "dom (map_of (AList.update k v al)) = insert k (dom (map_of al))"
  by (simp add: update_conv')

lemma dom_foldl_update:
  "dom (map_of (foldl (\<lambda>d n. AList.update (node_id n) [] d) d0 ns))
     = dom (map_of d0) \<union> node_id ` set ns"
proof (induction ns arbitrary: d0)
  case Nil
  then show ?case by simp
next
  case (Cons n ns)
  have "dom (map_of (foldl (\<lambda>d n. AList.update (node_id n) [] d) (AList.update (node_id n) [] d0) ns))
          = insert (node_id n) (dom (map_of d0)) \<union> node_id ` set ns"
    using Cons.IH [of "AList.update (node_id n) [] d0"] by (simp add: dom_alist_update)
  then show ?case by simp
qed

lemma dom_init_d_e: "dom (map_of (init_d_e ns)) = node_id ` set ns"
  by (simp add: init_d_e_def dom_foldl_update)

lemma add_edge_ok:
  assumes "sender e \<in> node_id ` set (nodes gr)" "receiver e \<in> node_id ` set (nodes gr)"
    and "node_id ` set (nodes gr) \<subseteq> dom (map_of d)"
  shows "\<exists>d'. add_edge gr d e = Inr d' \<and> dom (map_of d') = dom (map_of d)"
proof -
  obtain r where r: "get_node gr (receiver e) = Some r" "node_id r = receiver e"
    using get_node_in assms(2) by blast
  obtain s where s: "get_node gr (sender e) = Some s" "node_id s = sender e"
    using get_node_in assms(1) by blast
  from assms r obtain ds where ds: "map_of d (node_id r) = Some ds" by auto
  have "node_id r \<in> dom (map_of d)" using ds by blast
  then have "dom (map_of (AList.update (node_id r)
                 (AList.update (node_id s) (edge_weight e) ds) d)) = dom (map_of d)"
    by (simp add: dom_alist_update insert_absorb)
  with r s ds show ?thesis by (simp add: add_edge_def)
qed

lemma add_edges_ok:
  assumes "\<forall>e\<in>set es. sender e \<in> node_id ` set (nodes gr) \<and> receiver e \<in> node_id ` set (nodes gr)"
    and "node_id ` set (nodes gr) \<subseteq> dom (map_of d)"
  shows "\<exists>d'. add_edges gr d es = Inr d' \<and> dom (map_of d') = dom (map_of d)"
  using assms
proof (induction es arbitrary: d)
  case Nil
  then show ?case by simp
next
  case (Cons e es)
  then obtain d1 where d1: "add_edge gr d e = Inr d1" "dom (map_of d1) = dom (map_of d)"
    using add_edge_ok [of e gr d] by auto
  with Cons.IH [of d1] Cons.prems obtain d' where
    "add_edges gr d1 es = Inr d'" "dom (map_of d') = dom (map_of d1)" by auto
  with d1 show ?case by simp
qed

lemma dom_edge_fold:
  "dom (map_of (snd (foldl (\<lambda>a kv. (fst a @ edge_line n kv, AList.update n v (snd a))) acc ds)))
     = (if ds = [] then dom (map_of (snd acc)) else insert n (dom (map_of (snd acc))))"
proof (induction ds arbitrary: acc)
  case Nil
  then show ?case by simp
next
  case (Cons kv ds)
  show ?case
    using Cons.IH [of "(fst acc @ edge_line n kv, AList.update n v (snd acc))"]
    by (simp add: dom_alist_update)
qed

lemma dom_node_block:
  "dom (map_of (snd (node_block acc nd))) = insert (fst nd) (dom (map_of (snd acc)))"
  by (simp add: node_block_def dom_alist_update dom_edge_fold)

lemma dom_node_blocks:
  "dom (map_of (snd (foldl node_block acc d_e))) = dom (map_of (snd acc)) \<union> fst ` set d_e"
proof (induction d_e arbitrary: acc)
  case Nil
  then show ?case by simp
next
  case (Cons nd d_e)
  show ?case
    using Cons.IH [of "node_block acc nd"] by (simp add: dom_node_block)
qed

lemma return_items_ok:
  "set ns \<subseteq> dom (map_of d) \<Longrightarrow> \<exists>t'. return_items d ns t = Inr t'"
  by (induction ns arbitrary: t) (auto split: option.splits)

lemma generate_main_forward_ok:
  assumes "set eo \<subseteq> fst ` set d_e"
  shows "\<exists>t. generate_main_forward ns eo d_e = Inr t"
proof (cases "eo = []")
  case True
  then show ?thesis by (simp add: generate_main_forward_def)
next
  case False
  have "set eo \<subseteq> dom (map_of (snd (foldl node_block
           (foldl (\<lambda>t n. t @ zero_line n) ([nl, tab] @ ''def forward(self, input):'') eo, [])
           d_e)))"
    using assms by (simp add: dom_node_blocks)
  then show ?thesis
    using False return_items_ok by (simp add: generate_main_forward_def Let_def)
qed

lemma set_execution_order_of:
  assumes "\<forall>e\<in>set es. sender e \<in> node_id ` set ns \<and> receiver e \<in> node_id ` set ns"
  shows "set (execution_order_of es ns) \<subseteq> node_id ` set ns"
  using assms by (cases es) (auto simp: execution_order_closed)

subsection \<open>Evaluating the exporter on concrete inputs\<close>

lemmas exporter_defs =
  generate_scripts_from_model_def generate_graph_def compile_graph_def init_d_e_def add_edge_def get_node_def
  edge_weight_def build_script_def imports_string_def main_call_declaration_def
  script_tail_def generate_main_forward_def node_block_def zero_line_def source_line_def
  edge_line_def get_module_declaration_text_def class_header_def init_param_def
  self_assign_def forward_param_def stateful_update_def function_binding_def
  return_line_def sym_def sym_step_def py_replace_def func_args_def bind_step_def
  set_add_def execution_order_closed tuple_str_def int_str_def nat_digits.simps
  fresh_globals_def test_env_def engine_env_def mk_edge_def bare_node_def const_param_def Let_def

subsection \<open>Graphs with a cycle\<close>

lemma compile_graph_ok:
  assumes "graphs m = [gr]"
    and "\<forall>e\<in>set (edges gr) \<union> set es.
            sender e \<in> node_id ` set (nodes gr) \<and> receiver e \<in> node_id ` set (nodes gr)"
    and "\<not> isl (fst (declare_modules E (nodes gr) (execution_order_of es (nodes gr)) [] g))"
  shows "\<exists>script g'. compile_graph E m gr es [] g = (Inr [(graph_id gr, script)], g')"
proof -
  define eo where "eo = execution_order_of es (nodes gr)"
  obtain d_e where d_e: "add_edges gr (init_d_e (nodes gr)) (edges gr) = Inr d_e"
      "dom (map_of d_e) = node_id ` set (nodes gr)"
    using add_edges_ok [of "edges gr" gr "init_d_e (nodes gr)"] assms(2)
    by (auto simp: dom_init_d_e)
  have ag: "add_graphs (init_d_e (nodes gr)) (graphs m) = Inr d_e"
    using assms(1) d_e by simp
  have "set eo \<subseteq> node_id ` set (nodes gr)"
    unfolding eo_def using assms(2) by (intro set_execution_order_of) auto
  then have "set eo \<subseteq> fst ` set d_e"
    using d_e(2) by (simp add: dom_map_of_conv_image_fst)
  then obtain fw where fw: "generate_main_forward (nodes gr) eo d_e = Inr fw"
    using generate_main_forward_ok by blast
  obtain r g1 where r: "declare_modules E (nodes gr) eo [] g = (r, g1)"
    by (cases "declare_modules E (nodes gr) eo [] g")
  with assms(3) obtain t where t: "r = Inr t" by (cases r) (auto simp: eo_def)
  have "\<exists>script. build_script E (nodes gr) eo (model_id m) d_e g = (Inr script, g1)"
    using r t fw by (simp add: build_script_def Let_def)
  then obtain script where "build_script E (nodes gr) eo (model_id m) d_e g = (Inr script, g1)"
    by blast
  then have "compile_graph E m gr es [] g = (Inr [(graph_id gr, script)], g1)"
    using ag assms(1) by (simp add: compile_graph_def eo_def)
  then show ?thesis by blast
qed

text \<open>
  C2, as the code has it. The statements of the exporter detect no cycle. A run of
  script generation ends with \<^verbatim>\<open>CyclicGraph\<close> only if the engine raised it for one of
  the graphs. And when the engine returns ordered edges for a graph, the graph is
  compiled whether it has a cycle or not: for a model of one graph in which the ends of
  every declared edge and of every returned edge are nodes of the graph, script
  generation returns a script as soon as the classes of the nodes can be declared.
\<close>

theorem cycles_are_not_detected:
  "(generate_scripts_from_model E m g = Some (Inl CyclicGraph, g') \<longrightarrow>
      (\<exists>gr\<in>set (graphs m). evaluable_graph E gr = Raises CyclicGraph))
   \<and> (graphs m = [gr] \<and> evaluable_graph E gr = Returns es
      \<and> (\<forall>e\<in>set (edges gr) \<union> set es.
            sender e \<in> node_id ` set (nodes gr) \<and> receiver e \<in> node_id ` set (nodes gr))
      \<and> \<not> isl (fst (declare_modules E (nodes gr) (execution_order_of es (nodes gr)) [] g))
      \<longrightarrow> (\<exists>script g1. generate_scripts_from_model E m g
                            = Some (Inr [(graph_id gr, script)], g1)))"
proof (intro conjI impI)
  assume "generate_scripts_from_model E m g = Some (Inl CyclicGraph, g')"
  from generate_scripts_error [OF this]
  show "\<exists>gr\<in>set (graphs m). evaluable_graph E gr = Raises CyclicGraph"
    by (simp add: python_exception_def)
next
  assume h: "graphs m = [gr] \<and> evaluable_graph E gr = Returns es
      \<and> (\<forall>e\<in>set (edges gr) \<union> set es.
            sender e \<in> node_id ` set (nodes gr) \<and> receiver e \<in> node_id ` set (nodes gr))
      \<and> \<not> isl (fst (declare_modules E (nodes gr) (execution_order_of es (nodes gr)) [] g))"
  then obtain script g1 where "compile_graph E m gr es [] g = (Inr [(graph_id gr, script)], g1)"
    using compile_graph_ok [of m gr es E g] by blast
  with h have "generate_scripts_from_model E m g = Some (Inr [(graph_id gr, script)], g1)"
    by (simp add: generate_scripts_from_model_def generate_graph_def)
  then show "\<exists>script g1. generate_scripts_from_model E m g
                            = Some (Inr [(graph_id gr, script)], g1)"
    by blast
qed

lemma cyclic_model_run:
  "generate_scripts_from_model test_env cyclic_model fresh_globals
     = Some (Inr [(''g'', cyclic_script)],
             \<lparr>not_self = [], param_set = [''a'', ''b''], graph_input = []\<rparr>)"
  by (simp add: cyclic_model_def cyclic_graph_def adder_node_def cyclic_script_def exporter_defs)

theorem cycles_are_not_detected_witness:
  "generate_scripts_from_model (engine_env (\<lambda>gr. Raises CyclicGraph)) cyclic_model fresh_globals
     = Some (Inl CyclicGraph, fresh_globals)
   \<and> Bex (set (graphs cyclic_model))
        (\<lambda>gr. evaluable_graph (engine_env (\<lambda>gr. Raises CyclicGraph)) gr = Raises CyclicGraph)
   \<and> graphs cyclic_model = [cyclic_graph]
   \<and> evaluable_graph test_env cyclic_graph = Returns (edges cyclic_graph)
   \<and> set (map sender (edges cyclic_graph @ edges cyclic_graph))
        \<subseteq> node_id ` set (nodes cyclic_graph)
   \<and> set (map receiver (edges cyclic_graph @ edges cyclic_graph))
        \<subseteq> node_id ` set (nodes cyclic_graph)
   \<and> \<not> isl (fst (declare_modules test_env (nodes cyclic_graph)
           (execution_order_of (edges cyclic_graph) (nodes cyclic_graph)) [] fresh_globals))
   \<and> (\<exists>script g1. generate_scripts_from_model test_env cyclic_model fresh_globals
                      = Some (Inr [(graph_id cyclic_graph, script)], g1))"
proof -
  have 0: "generate_scripts_from_model (engine_env (\<lambda>gr. Raises CyclicGraph)) cyclic_model
             fresh_globals = Some (Inl CyclicGraph, fresh_globals)"
    by (simp add: generate_scripts_from_model_def generate_graph_def engine_env_def
          cyclic_model_def)
  have 1: "graphs cyclic_model = [cyclic_graph]"
    by (simp add: cyclic_model_def)
  have 2: "set (map sender (edges cyclic_graph @ edges cyclic_graph))
             \<subseteq> node_id ` set (nodes cyclic_graph)"
    and 3: "set (map receiver (edges cyclic_graph @ edges cyclic_graph))
             \<subseteq> node_id ` set (nodes cyclic_graph)"
    by (simp_all add: cyclic_graph_def mk_edge_def adder_node_def)
  then have 4: "\<forall>e\<in>set (edges cyclic_graph) \<union> set (edges cyclic_graph).
          sender e \<in> node_id ` set (nodes cyclic_graph)
          \<and> receiver e \<in> node_id ` set (nodes cyclic_graph)"
    by auto
  have 5: "\<not> isl (fst (declare_modules test_env (nodes cyclic_graph)
           (execution_order_of (edges cyclic_graph) (nodes cyclic_graph)) [] fresh_globals))"
    by (simp add: cyclic_graph_def adder_node_def exporter_defs)
  have 6: "evaluable_graph test_env cyclic_graph = Returns (edges cyclic_graph)"
    by (simp add: test_env_def)
  from 0 cycles_are_not_detected [of "engine_env (\<lambda>gr. Raises CyclicGraph)" cyclic_model
         fresh_globals fresh_globals]
  have 7: "Bex (set (graphs cyclic_model))
        (\<lambda>gr. evaluable_graph (engine_env (\<lambda>gr. Raises CyclicGraph)) gr = Raises CyclicGraph)"
    by blast
  from 1 4 5 6 cycles_are_not_detected [of test_env cyclic_model fresh_globals _ cyclic_graph
         "edges cyclic_graph"]
  have 8: "\<exists>script g1. generate_scripts_from_model test_env cyclic_model fresh_globals
                      = Some (Inr [(graph_id cyclic_graph, script)], g1)"
    by blast
  from 0 1 2 3 5 6 7 8 show ?thesis by blast
qed

text \<open>
  C2 as stated fails, whatever the engine does short of raising \<^verbatim>\<open>CyclicGraph\<close> itself.
  For the model whose graph has the edges A\<rightarrow>B and B\<rightarrow>A: when the engine returns the two
  edges as declared, lines 308 to 335 write the script \<open>cyclic_script\<close> (execution
  order A, B, A); when it returns them in the other order, or returns no edge, a script
  is written as well; when it raises another exception, that exception is the result;
  when it does not return, neither does the run. No run ends with \<^verbatim>\<open>CyclicGraph\<close>.
\<close>

theorem cyclic_graph_counterexample:
  "generate_scripts_from_model (engine_env (\<lambda>gr. Returns [mk_edge ''A'' ''B'', mk_edge ''B'' ''A'']))
       cyclic_model fresh_globals
     = Some (Inr [(''g'', cyclic_script)],
             \<lparr>not_self = [], param_set = [''a'', ''b''], graph_input = []\<rparr>)
   \<and> map_option (\<lambda>r. isl (fst r))
        (generate_scripts_from_model
           (engine_env (\<lambda>gr. Returns [mk_edge ''B'' ''A'', mk_edge ''A'' ''B'']))
           cyclic_model fresh_globals) = Some False
   \<and> map_option (\<lambda>r. isl (fst r))
        (generate_scripts_from_model (engine_env (\<lambda>gr. Returns [])) cyclic_model fresh_globals)
       = Some False
   \<and> generate_scripts_from_model (engine_env (\<lambda>gr. Raises TypeError)) cyclic_model fresh_globals
       = Some (Inl TypeError, fresh_globals)
   \<and> generate_scripts_from_model (engine_env (\<lambda>gr. Diverges)) cyclic_model fresh_globals = None"
  by (simp add: cyclic_model_def cyclic_graph_def adder_node_def cyclic_script_def exporter_defs)

subsection \<open>The constructor of a node's class\<close>

lemma init_param_text:
  assumes "init_param p t g = (Inr t', g')"
  shows "t' = t @ ctor_default p"
  using assms
  by (auto simp: init_param_def ctor_default_def initial_value_def Let_def split: if_splits)

lemma init_params_text:
  "init_params ps t g = (Inr t', g') \<Longrightarrow> t' = t @ concat (map ctor_default ps)"
proof (induction ps arbitrary: t g)
  case Nil
  then show ?case by simp
next
  case (Cons p ps)
  obtain r g1 where r: "init_param p t g = (r, g1)" by (cases "init_param p t g")
  with Cons.prems obtain t1 where t1: "r = Inr t1" by (cases r) auto
  with r have "t1 = t @ ctor_default p" using init_param_text by blast
  moreover have "init_params ps t1 g1 = (Inr t', g')" using Cons.prems r t1 by simp
  ultimately show ?case using Cons.IH by fastforce
qed

lemma init_param_succeeds:
  "default_initial_value p \<noteq> PyStr ''str'' \<Longrightarrow> \<exists>t' g'. init_param p t g = (Inr t', g')"
  by (simp add: init_param_def Let_def)

lemma init_params_succeeds:
  "\<forall>p\<in>set ps. default_initial_value p \<noteq> PyStr ''str'' \<Longrightarrow>
   \<exists>t' g'. init_params ps t g = (Inr t', g')"
proof (induction ps arbitrary: t g)
  case Nil
  then show ?case by simp
next
  case (Cons p ps)
  then obtain t1 g1 where "init_param p t g = (Inr t1, g1)"
    using init_param_succeeds [of p t g] by auto
  with Cons show ?case by simp
qed

lemma foldl_self_assign: "foldl self_assign t ps = t @ concat (map attr_line ps)"
  by (induction ps arbitrary: t) (auto simp: self_assign_def attr_line_def)

lemma fold_port_ids_prefix:
  "\<exists>r. foldl (\<lambda>t input_port. t @ port_id input_port) a xs = a @ r"
proof (induction xs arbitrary: a)
  case Nil
  then show ?case by simp
next
  case (Cons x xs)
  from Cons.IH [of "a @ port_id x"] obtain r where
    "foldl (\<lambda>t input_port. t @ port_id input_port) (a @ port_id x) xs = (a @ port_id x) @ r"
    by blast
  then have "foldl (\<lambda>t input_port. t @ port_id input_port) a (x # xs) = a @ (port_id x @ r)"
    by simp
  then show ?case by blast
qed

lemma forward_param_prefix:
  "forward_param E g q te = Inr te' \<Longrightarrow> \<exists>r. fst te' = fst te @ r"
  by (auto simp: forward_param_def stateful_update_def function_binding_def Let_def
      split: if_splits sum.splits option.splits)

lemma forward_params_prefix:
  "forward_params E g qs te = Inr te' \<Longrightarrow> \<exists>r. fst te' = fst te @ r"
proof (induction qs arbitrary: te)
  case Nil
  then show ?case by simp
next
  case (Cons q qs)
  from Cons.prems obtain te1 where a: "forward_param E g q te = Inr te1"
    and b: "forward_params E g qs te1 = Inr te'"
    by (auto split: sum.splits)
  from forward_param_prefix [OF a] obtain r1 where "fst te1 = fst te @ r1" by blast
  moreover from Cons.IH [OF b] obtain r2 where "fst te' = fst te1 @ r2" by blast
  ultimately show ?case by simp
qed

text \<open>
  C7, as the code has it. For a parameter without a function the constructor argument,
  which \<^verbatim>\<open>self.<id>=<id>\<close> stores as the unit's persistent state, defaults to the
  parameter's value when the parameter is not stateful, to zero when it is stateful and
  its value is true, and to the declared default initial value when it is stateful and
  its value is \<^verbatim>\<open>None\<close>, zero or empty. The first loop writes these defaults for every
  list of parameters none of which declares the default \<^verbatim>\<open>"str"\<close>, and every class text
  that \<^verbatim>\<open>get_module_declaration_text\<close> returns for a node with parameters and without
  functions starts with them.
\<close>

theorem constructor_defaults:
  "((\<forall>p\<in>set ps. default_initial_value p \<noteq> PyStr ''str'') \<longrightarrow>
       fst (init_params ps t g) = Inr (t @ concat (map ctor_default ps)))
   \<and> (parameters nd \<noteq> [] \<and> node_functions nd = []
       \<and> fst (get_module_declaration_text E name nd eo g) = Inr text \<longrightarrow>
       (\<exists>rest. text = nl # ''class '' @ name @ ''(nn.Module):''
                  @ [nl, tab] @ ''def __init__(self,''
                  @ concat (map ctor_default (parameters nd)) @ ''):''
                  @ [nl, tab, tab] @ ''super().__init__()''
                  @ concat (map attr_line (parameters nd)) @ rest))
   \<and> (\<not> truthy_opt (param_function p) \<longrightarrow>
        ctor_default p = param_id p @ ''=torch.tensor('' @
          py_str (if \<not> is_stateful p then param_value p
                  else if truthy (param_value p) then PyInt 0
                  else default_initial_value p) @ ''),'')"
proof (intro conjI impI)
  assume "\<forall>p\<in>set ps. default_initial_value p \<noteq> PyStr ''str''"
  then obtain t' g' where r: "init_params ps t g = (Inr t', g')"
    using init_params_succeeds by blast
  then have "t' = t @ concat (map ctor_default ps)" by (rule init_params_text)
  with r show "fst (init_params ps t g) = Inr (t @ concat (map ctor_default ps))" by simp
next
  assume h: "parameters nd \<noteq> [] \<and> node_functions nd = []
       \<and> fst (get_module_declaration_text E name nd eo g) = Inr text"
  define t0 where "t0 = class_header name @ [nl, tab] @ ''def __init__(self,''"
  obtain r g1 where r: "init_params (parameters nd) t0 g = (r, g1)"
    by (cases "init_params (parameters nd) t0 g")
  from h r obtain t1 where t1: "r = Inr t1"
    by (cases r) (auto simp: get_module_declaration_text_def t0_def)
  with r have t1eq: "t1 = t0 @ concat (map ctor_default (parameters nd))"
    using init_params_text by blast
  define t8 where "t8 = foldl (\<lambda>t input_port. t @ port_id input_port)
       (foldl self_assign (t1 @ ''):'' @ [nl, tab, tab] @ ''super().__init__()'') (parameters nd)
          @ [nl, tab, tab] @ ''self.execution_count=torch.tensor(0)''
          @ [nl, tab] @ ''def forward(self,'') (input_ports nd)
       @ '' ):'' @ [nl, tab, tab] @ ''self.execution_count=self.execution_count+torch.tensor(1)''"
  have t8pref: "\<exists>r. t8 = t1 @ ''):'' @ [nl, tab, tab] @ ''super().__init__()''
                    @ concat (map attr_line (parameters nd)) @ r"
    unfolding t8_def foldl_self_assign
    using fold_port_ids_prefix [of "(t1 @ ''):'' @ [nl, tab, tab] @ ''super().__init__()'' @ concat (map attr_line (parameters nd)))
          @ [nl, tab, tab] @ ''self.execution_count=torch.tensor(0)''
          @ [nl, tab] @ ''def forward(self,''" "input_ports nd"]
    by auto
  from h r t1 obtain t9 ex where fp: "forward_params E g1 (parameters nd) (t8, None) = Inr (t9, ex)"
    and rl: "return_line E g1 (output_ports nd) t9 = Inr text"
    by (auto simp: get_module_declaration_text_def t0_def t8_def Let_def
        split: sum.splits prod.splits)
  from forward_params_prefix [OF fp] obtain r9 where r9: "t9 = t8 @ r9" by auto
  from rl obtain r10 where r10: "text = t9 @ r10"
    by (auto simp: return_line_def split: list.splits if_splits sum.splits)
  from t8pref obtain r8 where "t8 = t1 @ ''):'' @ [nl, tab, tab] @ ''super().__init__()''
                    @ concat (map attr_line (parameters nd)) @ r8" by blast
  with r9 r10 t1eq have "text = nl # ''class '' @ name @ ''(nn.Module):''
                  @ [nl, tab] @ ''def __init__(self,''
                  @ concat (map ctor_default (parameters nd)) @ ''):''
                  @ [nl, tab, tab] @ ''super().__init__()''
                  @ concat (map attr_line (parameters nd)) @ (r8 @ r9 @ r10)"
    by (simp add: t0_def class_header_def)
  then show "\<exists>rest. text = nl # ''class '' @ name @ ''(nn.Module):''
                  @ [nl, tab] @ ''def __init__(self,''
                  @ concat (map ctor_default (parameters nd)) @ ''):''
                  @ [nl, tab, tab] @ ''super().__init__()''
                  @ concat (map attr_line (parameters nd)) @ rest"
    by blast
next
  assume "\<not> truthy_opt (param_function p)"
  then show "ctor_default p = param_id p @ ''=torch.tensor('' @
          py_str (if \<not> is_stateful p then param_value p
                  else if truthy (param_value p) then PyInt 0
                  else default_initial_value p) @ ''),''"
    by (simp add: ctor_default_def initial_value_def)
qed

theorem constructor_defaults_witness:
  "default_initial_value (const_param ''a'' (PyInt 1)) \<noteq> PyStr ''str''
   \<and> default_initial_value (stateful_param ''x'' (PyStr ''x + a'') (PyInt 5) None) \<noteq> PyStr ''str''
   \<and> default_initial_value (stateful_param ''y'' PyNone (PyInt 7) (Some ''a'')) \<noteq> PyStr ''str''
   \<and> fst (init_params [const_param ''a'' (PyInt 1),
               stateful_param ''x'' (PyStr ''x + a'') (PyInt 5) None,
               stateful_param ''y'' PyNone (PyInt 7) (Some ''a'')] [] fresh_globals)
        = Inr ''a=torch.tensor(1),x=torch.tensor(0),y=torch.tensor(7),''
   \<and> parameters (param_node ''N'' [const_param ''a'' (PyInt 1),
               stateful_param ''x'' (PyStr ''x + a'') (PyInt 5) None,
               stateful_param ''y'' PyNone (PyInt 7) (Some ''a'')] ''x + y'') \<noteq> []
   \<and> node_functions (param_node ''N'' [const_param ''a'' (PyInt 1),
               stateful_param ''x'' (PyStr ''x + a'') (PyInt 5) None,
               stateful_param ''y'' PyNone (PyInt 7) (Some ''a'')] ''x + y'') = []
   \<and> fst (get_module_declaration_text test_env ''N''
             (param_node ''N'' [const_param ''a'' (PyInt 1),
               stateful_param ''x'' (PyStr ''x + a'') (PyInt 5) None,
               stateful_param ''y'' PyNone (PyInt 7) (Some ''a'')] ''x + y'') [] fresh_globals)
        = Inr (
          [nl] @ ''class N(nn.Module):''
          @ [nl, tab] @ ''def __init__(self,a=torch.tensor(1),x=torch.tensor(0),y=torch.tensor(7),):''
          @ [nl, tab, tab] @ ''super().__init__()''
          @ [nl, tab, tab] @ ''self.a=a''
          @ [nl, tab, tab] @ ''self.x=x''
          @ [nl, tab, tab] @ ''self.y=y''
          @ [nl, tab, tab] @ ''self.execution_count=torch.tensor(0)''
          @ [nl, tab] @ ''def forward(self, ):''
          @ [nl, tab, tab] @ ''self.execution_count=self.execution_count+torch.tensor(1)''
          @ [nl, tab, tab] @ ''self.x=self.x + self.a''
          @ [nl, tab, tab] @ ''self.y=self.y+(self.a)''
          @ [nl, tab, tab] @ ''return self.x + self.y'')
   \<and> \<not> truthy_opt (param_function (stateful_param ''y'' PyNone (PyInt 7) (Some ''a'')))
   \<and> ctor_default (stateful_param ''y'' PyNone (PyInt 7) (Some ''a'')) = ''y=torch.tensor(7),''"
proof -
  have 1: "\<forall>p\<in>set [const_param ''a'' (PyInt 1), stateful_param ''x'' (PyStr ''x + a'') (PyInt 5) None, stateful_param ''y'' PyNone (PyInt 7) (Some ''a'')].
             default_initial_value p \<noteq> PyStr ''str''"
    by (simp add: const_param_def stateful_param_def)
  have 2: "fst (get_module_declaration_text test_env ''N''
             (param_node ''N'' [const_param ''a'' (PyInt 1), stateful_param ''x'' (PyStr ''x + a'') (PyInt 5) None, stateful_param ''y'' PyNone (PyInt 7) (Some ''a'')] ''x + y'') [] fresh_globals)
        = Inr (
          [nl] @ ''class N(nn.Module):''
          @ [nl, tab] @ ''def __init__(self,a=torch.tensor(1),x=torch.tensor(0),y=torch.tensor(7),):''
          @ [nl, tab, tab] @ ''super().__init__()''
          @ [nl, tab, tab] @ ''self.a=a''
          @ [nl, tab, tab] @ ''self.x=x''
          @ [nl, tab, tab] @ ''self.y=y''
          @ [nl, tab, tab] @ ''self.execution_count=torch.tensor(0)''
          @ [nl, tab] @ ''def forward(self, ):''
          @ [nl, tab, tab] @ ''self.execution_count=self.execution_count+torch.tensor(1)''
          @ [nl, tab, tab] @ ''self.x=self.x + self.a''
          @ [nl, tab, tab] @ ''self.y=self.y+(self.a)''
          @ [nl, tab, tab] @ ''return self.x + self.y'')"
    by (simp add: param_node_def stateful_param_def exporter_defs)
  have 3: "\<not> truthy_opt (param_function (stateful_param ''y'' PyNone (PyInt 7) (Some ''a'')))"
    by (simp add: stateful_param_def)
  from 1 2 3 constructor_defaults
      [of "[const_param ''a'' (PyInt 1), stateful_param ''x'' (PyStr ''x + a'') (PyInt 5) None, stateful_param ''y'' PyNone (PyInt 7) (Some ''a'')]" "[]" fresh_globals
          "param_node ''N'' [const_param ''a'' (PyInt 1), stateful_param ''x'' (PyStr ''x + a'') (PyInt 5) None, stateful_param ''y'' PyNone (PyInt 7) (Some ''a'')] ''x + y''" test_env "''N''" "[]"
          "
          [nl] @ ''class N(nn.Module):''
          @ [nl, tab] @ ''def __init__(self,a=torch.tensor(1),x=torch.tensor(0),y=torch.tensor(7),):''
          @ [nl, tab, tab] @ ''super().__init__()''
          @ [nl, tab, tab] @ ''self.a=a''
          @ [nl, tab, tab] @ ''self.x=x''
          @ [nl, tab, tab] @ ''self.y=y''
          @ [nl, tab, tab] @ ''self.execution_count=torch.tensor(0)''
          @ [nl, tab] @ ''def forward(self, ):''
          @ [nl, tab, tab] @ ''self.execution_count=self.execution_count+torch.tensor(1)''
          @ [nl, tab, tab] @ ''self.x=self.x + self.a''
          @ [nl, tab, tab] @ ''self.y=self.y+(self.a)''
          @ [nl, tab, tab] @ ''return self.x + self.y''"
          "stateful_param ''y'' PyNone (PyInt 7) (Some ''a'')"]
  show ?thesis
    by (simp add: param_node_def stateful_param_def const_param_def ctor_default_def
          initial_value_def int_str_def nat_digits.simps)
qed

text \<open>
  C7 as stated fails. A stateful parameter with the literal value 0 and the declared
  default initial value 7 has a literal value and is stateful, so the claim makes its
  initial state 0; the class the exporter writes gives it 7, because the value 0 is
  false.
\<close>

theorem initial_state_counterexample:
  "get_module_declaration_text test_env ''N''
      (param_node ''N'' [stateful_param ''x'' (PyInt 0) (PyInt 7) None] ''x'') [] fresh_globals
     = (Inr (
          [nl] @ ''class N(nn.Module):''
          @ [nl, tab] @ ''def __init__(self,x=torch.tensor(7),):''
          @ [nl, tab, tab] @ ''super().__init__()''
          @ [nl, tab, tab] @ ''self.x=x''
          @ [nl, tab, tab] @ ''self.execution_count=torch.tensor(0)''
          @ [nl, tab] @ ''def forward(self, ):''
          @ [nl, tab, tab] @ ''self.execution_count=self.execution_count+torch.tensor(1)''
          @ [nl, tab, tab] @ ''return self.x''),
        \<lparr>not_self = [], param_set = [''x''], graph_input = []\<rparr>)"
  by (simp add: param_node_def stateful_param_def exporter_defs)

subsection \<open>Functions that the registry does not know\<close>

text \<open>
  C9 does not hold of the code. A parameter whose function the registry does not have
  leaves the local \<^verbatim>\<open>exp\<close> as it was: unassigned, and then appending it raises
  \<^verbatim>\<open>UnboundLocalError\<close>; or holding the expression of the function parameter before it,
  and then that expression is written again, with no error at all.
\<close>

theorem unknown_function_not_reported:
  "get_module_declaration_text test_env ''N''
      (param_node ''N'' [func_param ''y'' ''nosuch'' [(''a'', PyInt 1)]] ''y'') [] fresh_globals
     = (Inl UnboundLocalError, fresh_globals)
   \<and> get_module_declaration_text test_env ''N''
      (param_node ''N''
         [func_param ''y'' ''linear''
            [(''variable0'', PyStr ''x''), (''slope'', PyInt 2), (''intercept'', PyInt 1)],
          func_param ''z'' ''nosuch'' [(''a'', PyInt 1)]] ''z'') [] fresh_globals
     = (Inr (
          [nl] @ ''class N(nn.Module):''
          @ [nl, tab] @ ''def __init__(self,):''
          @ [nl, tab, tab] @ ''super().__init__()''
          @ [nl, tab, tab] @ ''self.execution_count=torch.tensor(0)''
          @ [nl, tab] @ ''def forward(self, ):''
          @ [nl, tab, tab] @ ''self.execution_count=self.execution_count+torch.tensor(1)''
          @ [nl, tab, tab] @ ''y=(x * 2 + 1)''
          @ [nl, tab, tab] @ ''z=(x * 2 + 1)''
          @ [nl, tab, tab] @ ''return z''),
        fresh_globals)"
  by (simp add: param_node_def func_param_def exporter_defs)

subsection \<open>The accumulators across runs\<close>

lemma init_param_settled: "settled g p \<Longrightarrow> snd (init_param p t g) = g"
  by (auto simp: init_param_def settled_def set_add_def Let_def)

lemma init_params_settled: "list_all (settled g) ps \<Longrightarrow> snd (init_params ps t g) = g"
proof (induction ps arbitrary: t)
  case Nil
  then show ?case by simp
next
  case (Cons p ps)
  then have "snd (init_param p t g) = g" by (simp add: init_param_settled)
  then obtain r where r: "init_param p t g = (r, g)" by (cases "init_param p t g") auto
  show ?case
  proof (cases r)
    case (Inl e)
    with r show ?thesis by simp
  next
    case (Inr t1)
    with r Cons show ?thesis by simp
  qed
qed

lemma get_module_declaration_text_settled:
  assumes "list_all (settled g) (node_reads n)"
  shows "snd (get_module_declaration_text E name n eo g) = g"
proof (cases "parameters n \<noteq> [] \<and> node_functions n = []")
  case False
  then show ?thesis by (auto simp: get_module_declaration_text_def)
next
  case True
  with assms have "snd (init_params (parameters n)
        (class_header name @ [nl, tab] @ ''def __init__(self,'') g) = g"
    by (simp add: node_reads_def init_params_settled)
  then obtain r where "init_params (parameters n)
        (class_header name @ [nl, tab] @ ''def __init__(self,'') g = (r, g)"
    by (cases "init_params (parameters n)
        (class_header name @ [nl, tab] @ ''def __init__(self,'') g") auto
  with True show ?thesis
    by (auto simp: get_module_declaration_text_def Let_def split: sum.splits prod.splits)
qed

lemma declare_modules_settled:
  "list_all (\<lambda>n. list_all (settled g) (node_reads n)) ns \<Longrightarrow>
   snd (declare_modules E ns eo t g) = g"
proof (induction ns arbitrary: t)
  case Nil
  then show ?case by simp
next
  case (Cons n ns)
  then have "snd (get_module_declaration_text E (node_id n) n eo g) = g"
    by (simp add: get_module_declaration_text_settled)
  then obtain r where r: "get_module_declaration_text E (node_id n) n eo g = (r, g)"
    by (cases "get_module_declaration_text E (node_id n) n eo g") auto
  show ?case
  proof (cases r)
    case (Inl e)
    with r show ?thesis by simp
  next
    case (Inr d)
    with r Cons show ?thesis by simp
  qed
qed

lemma build_script_snd:
  "snd (build_script E ns eo mid d_e g) = snd (declare_modules E ns eo [] g)"
  by (cases "declare_modules E ns eo [] g")
     (auto simp: build_script_def Let_def split: sum.splits)

lemma get_module_declaration_text_snd:
  "snd (get_module_declaration_text E name n eo g) =
     (if parameters n \<noteq> [] \<and> node_functions n = []
      then snd (init_params (parameters n) (class_header name @ [nl, tab] @ ''def __init__(self,'') g)
      else g)"
  by (cases "init_params (parameters n) (class_header name @ [nl, tab] @ ''def __init__(self,'') g")
     (auto simp: get_module_declaration_text_def Let_def split: sum.splits prod.splits)

lemma compile_graph_snd:
  "snd (compile_graph E m gr es scripts g) =
     (case add_graphs (init_d_e (nodes gr)) (graphs m) of
        Inl e \<Rightarrow> g
      | Inr d_e \<Rightarrow> snd (declare_modules E (nodes gr) (execution_order_of es (nodes gr)) [] g))"
proof (cases "add_graphs (init_d_e (nodes gr)) (graphs m)")
  case (Inl e)
  then show ?thesis by (simp add: compile_graph_def)
next
  case (Inr d_e)
  obtain r g1 where r: "build_script E (nodes gr)
      (execution_order_of es (nodes gr)) (model_id m) d_e g = (r, g1)"
    by (cases "build_script E (nodes gr) (execution_order_of es (nodes gr)) (model_id m) d_e g")
  then have "g1 = snd (declare_modules E (nodes gr) (execution_order_of es (nodes gr)) [] g)"
    using build_script_snd [of E "nodes gr" "execution_order_of es (nodes gr)" "model_id m" d_e g]
    by simp
  with Inr r show ?thesis by (cases r) (simp_all add: compile_graph_def)
qed

lemma compile_graph_settled:
  "list_all (\<lambda>n. list_all (settled g) (node_reads n)) (nodes gr) \<Longrightarrow>
   snd (compile_graph E m gr es scripts g) = g"
  by (simp add: compile_graph_snd declare_modules_settled split: sum.splits)

lemma generate_graphs_settled:
  "list_all (\<lambda>gr. list_all (\<lambda>n. list_all (settled g) (node_reads n)) (nodes gr)) grs \<Longrightarrow>
   generate_graphs E m grs scripts g = Some (r, g') \<Longrightarrow> g' = g"
proof (induction grs arbitrary: scripts)
  case Nil
  then show ?case by simp
next
  case (Cons gr grs)
  show ?case
  proof (cases "evaluable_graph E gr")
    case Diverges
    with Cons.prems(2) show ?thesis by (simp add: generate_graph_def)
  next
    case (Raises x)
    with Cons.prems(2) show ?thesis by (simp add: generate_graph_def)
  next
    case (Returns es)
    from Cons.prems(1) have "snd (compile_graph E m gr es scripts g) = g"
      by (simp add: compile_graph_settled)
    then obtain r1 where r1: "compile_graph E m gr es scripts g = (r1, g)"
      by (cases "compile_graph E m gr es scripts g") auto
    show ?thesis
    proof (cases r1)
      case (Inl e)
      with r1 Returns Cons.prems(2) show ?thesis by (simp add: generate_graph_def)
    next
      case (Inr s1)
      with r1 Returns Cons.prems(2) have "generate_graphs E m grs s1 g = Some (r, g')"
        by (simp add: generate_graph_def)
      with Cons.IH Cons.prems(1) show ?thesis by simp
    qed
  qed
qed

lemma model_settled_iff:
  "model_settled m g \<longleftrightarrow>
   list_all (\<lambda>gr. list_all (\<lambda>n. list_all (settled g) (node_reads n)) (nodes gr)) (graphs m)"
  by (auto simp: model_settled_def visited_def list_all_iff)

text \<open>What a run adds: exactly, when it returns scripts; at least nothing is lost, always.\<close>

lemma extended_by_Nil: "extended_by g [] g"
  by (simp add: extended_by_def inputs_of_def owned_ids_def)

lemma extended_by_append:
  "extended_by g ps g1 \<Longrightarrow> extended_by g1 qs g' \<Longrightarrow> extended_by g (ps @ qs) g'"
  by (auto simp: extended_by_def inputs_of_def owned_ids_def)

lemma extended_by_extends: "extended_by g ps g' \<Longrightarrow> extends g g'"
  by (auto simp: extended_by_def extends_def)

lemma extends_refl: "extends g g"
  by (simp add: extends_def)

lemma extends_trans: "extends g g1 \<Longrightarrow> extends g1 g' \<Longrightarrow> extends g g'"
  by (auto simp: extends_def intro: prefix_order.order_trans)

lemma init_param_extended: "init_param p t g = (r, g') \<Longrightarrow> extended_by g [p] g'"
  by (auto simp: init_param_def extended_by_def inputs_of_def owned_ids_def set_add_def Let_def
      split: if_splits)

lemma init_params_extended:
  "init_params ps t g = (Inr t', g') \<Longrightarrow> extended_by g ps g'"
proof (induction ps arbitrary: t g)
  case Nil
  then show ?case by (simp add: extended_by_Nil)
next
  case (Cons p ps)
  obtain r g1 where r: "init_param p t g = (r, g1)" by (cases "init_param p t g")
  with Cons.prems obtain t1 where t1: "r = Inr t1" by (cases r) auto
  with r Cons.prems have "init_params ps t1 g1 = (Inr t', g')" by simp
  with Cons.IH have "extended_by g1 ps g'" by blast
  with init_param_extended [OF r] have "extended_by g ([p] @ ps) g'"
    by (rule extended_by_append)
  then show ?case by simp
qed

lemma init_params_extends: "init_params ps t g = (r, g') \<Longrightarrow> extends g g'"
proof (induction ps arbitrary: t g)
  case Nil
  then show ?case by (simp add: extends_refl)
next
  case (Cons p ps)
  obtain r1 g1 where r1: "init_param p t g = (r1, g1)" by (cases "init_param p t g")
  then have e1: "extends g g1"
    using init_param_extended extended_by_extends by blast
  show ?case
  proof (cases r1)
    case (Inl e)
    with r1 Cons.prems e1 show ?thesis by simp
  next
    case (Inr t1)
    with r1 Cons.prems have "init_params ps t1 g1 = (r, g')" by simp
    with Cons.IH have "extends g1 g'" by blast
    with e1 show ?thesis by (rule extends_trans)
  qed
qed

lemma get_module_declaration_text_extended:
  assumes "get_module_declaration_text E name n eo g = (Inr src, g')"
  shows "extended_by g (node_reads n) g'"
proof (cases "parameters n \<noteq> [] \<and> node_functions n = []")
  case False
  with assms have "g' = g" by (auto simp: get_module_declaration_text_def)
  with False show ?thesis by (auto simp: node_reads_def extended_by_Nil)
next
  case True
  obtain r g1 where r: "init_params (parameters n)
       (class_header name @ [nl, tab] @ ''def __init__(self,'') g = (r, g1)"
    by (cases "init_params (parameters n)
       (class_header name @ [nl, tab] @ ''def __init__(self,'') g")
  with assms True obtain t1 where t1: "r = Inr t1"
    by (cases r) (auto simp: get_module_declaration_text_def)
  have "g' = g1"
    using assms get_module_declaration_text_snd [of E name n eo g] True r by simp
  with r t1 True show ?thesis
    using init_params_extended by (simp add: node_reads_def)
qed

lemma get_module_declaration_text_extends:
  "get_module_declaration_text E name n eo g = (r, g') \<Longrightarrow> extends g g'"
  using get_module_declaration_text_snd [of E name n eo g]
    init_params_extends [of "parameters n" "class_header name @ [nl, tab] @ ''def __init__(self,''" g]
  by (cases "init_params (parameters n) (class_header name @ [nl, tab] @ ''def __init__(self,'') g")
     (auto simp: extends_refl split: if_splits)

lemma declare_modules_extended:
  "declare_modules E ns eo t g = (Inr t', g') \<Longrightarrow>
   extended_by g (concat (map node_reads ns)) g'"
proof (induction ns arbitrary: t g)
  case Nil
  then show ?case by (simp add: extended_by_Nil)
next
  case (Cons n ns)
  obtain r g1 where r: "get_module_declaration_text E (node_id n) n eo g = (r, g1)"
    by (cases "get_module_declaration_text E (node_id n) n eo g")
  with Cons.prems obtain d where d: "r = Inr d" by (cases r) auto
  with r Cons.prems have "declare_modules E ns eo (t @ d) g1 = (Inr t', g')" by simp
  with Cons.IH have "extended_by g1 (concat (map node_reads ns)) g'" by blast
  moreover have "extended_by g (node_reads n) g1"
    using r d get_module_declaration_text_extended by blast
  ultimately have "extended_by g (node_reads n @ concat (map node_reads ns)) g'"
    using extended_by_append by blast
  then show ?case by simp
qed

lemma declare_modules_extends: "declare_modules E ns eo t g = (r, g') \<Longrightarrow> extends g g'"
proof (induction ns arbitrary: t g)
  case Nil
  then show ?case by (simp add: extends_refl)
next
  case (Cons n ns)
  obtain r1 g1 where r1: "get_module_declaration_text E (node_id n) n eo g = (r1, g1)"
    by (cases "get_module_declaration_text E (node_id n) n eo g")
  then have e1: "extends g g1" by (rule get_module_declaration_text_extends)
  show ?case
  proof (cases r1)
    case (Inl e)
    with r1 Cons.prems e1 show ?thesis by simp
  next
    case (Inr d)
    with r1 Cons.prems have "declare_modules E ns eo (t @ d) g1 = (r, g')" by simp
    with Cons.IH have "extends g1 g'" by blast
    with e1 show ?thesis by (rule extends_trans)
  qed
qed

lemma compile_graph_extends: "compile_graph E m gr es scripts g = (r, g') \<Longrightarrow> extends g g'"
proof (cases "add_graphs (init_d_e (nodes gr)) (graphs m)")
  case (Inl e)
  assume "compile_graph E m gr es scripts g = (r, g')"
  with Inl have "g' = g" by (simp add: compile_graph_def)
  then show ?thesis by (simp add: extends_refl)
next
  case (Inr d_e)
  assume a: "compile_graph E m gr es scripts g = (r, g')"
  obtain r1 g1 where r1: "declare_modules E (nodes gr) (execution_order_of es (nodes gr)) [] g
                            = (r1, g1)"
    by (cases "declare_modules E (nodes gr) (execution_order_of es (nodes gr)) [] g")
  have "g' = g1" using a compile_graph_snd [of E m gr es scripts g] Inr r1 by simp
  with r1 show ?thesis using declare_modules_extends by blast
qed

lemma compile_graph_extended:
  assumes "compile_graph E m gr es scripts g = (Inr s, g')"
  shows "extended_by g (concat (map node_reads (nodes gr))) g'"
proof -
  from assms obtain d_e where d_e: "add_graphs (init_d_e (nodes gr)) (graphs m) = Inr d_e"
    by (cases "add_graphs (init_d_e (nodes gr)) (graphs m)") (auto simp: compile_graph_def)
  obtain r1 g1 where r1: "declare_modules E (nodes gr) (execution_order_of es (nodes gr)) [] g
                            = (r1, g1)"
    by (cases "declare_modules E (nodes gr) (execution_order_of es (nodes gr)) [] g")
  have "g' = g1" using assms compile_graph_snd [of E m gr es scripts g] d_e r1 by simp
  moreover from assms d_e r1 obtain t where "r1 = Inr t"
    by (cases r1) (auto simp: compile_graph_def build_script_def)
  ultimately show ?thesis using r1 declare_modules_extended by blast
qed

lemma generate_graphs_extends:
  "generate_graphs E m grs scripts g = Some (r, g') \<Longrightarrow> extends g g'"
proof (induction grs arbitrary: scripts g)
  case Nil
  then show ?case by (simp add: extends_refl)
next
  case (Cons gr grs)
  show ?case
  proof (cases "evaluable_graph E gr")
    case Diverges
    with Cons.prems show ?thesis by (simp add: generate_graph_def)
  next
    case (Raises x)
    with Cons.prems show ?thesis by (simp add: generate_graph_def extends_refl)
  next
    case (Returns es)
    obtain r1 g1 where r1: "compile_graph E m gr es scripts g = (r1, g1)"
      by (cases "compile_graph E m gr es scripts g")
    then have e1: "extends g g1" by (rule compile_graph_extends)
    show ?thesis
    proof (cases r1)
      case (Inl e)
      with r1 Returns Cons.prems e1 show ?thesis by (simp add: generate_graph_def)
    next
      case (Inr s1)
      with r1 Returns Cons.prems have "generate_graphs E m grs s1 g1 = Some (r, g')"
        by (simp add: generate_graph_def)
      with Cons.IH have "extends g1 g'" by blast
      with e1 show ?thesis by (rule extends_trans)
    qed
  qed
qed

lemma generate_graphs_extended:
  "generate_graphs E m grs scripts g = Some (Inr s, g') \<Longrightarrow>
   extended_by g (concat (map (\<lambda>gr. concat (map node_reads (nodes gr))) grs)) g'"
proof (induction grs arbitrary: scripts g)
  case Nil
  then show ?case by (simp add: extended_by_Nil)
next
  case (Cons gr grs)
  show ?case
  proof (cases "evaluable_graph E gr")
    case Diverges
    with Cons.prems show ?thesis by (simp add: generate_graph_def)
  next
    case (Raises x)
    with Cons.prems show ?thesis by (simp add: generate_graph_def)
  next
    case (Returns es)
    obtain r1 g1 where r1: "compile_graph E m gr es scripts g = (r1, g1)"
      by (cases "compile_graph E m gr es scripts g")
    with Returns Cons.prems obtain s1 where s1: "r1 = Inr s1"
      by (cases r1) (auto simp: generate_graph_def)
    with r1 Returns Cons.prems have "generate_graphs E m grs s1 g1 = Some (Inr s, g')"
      by (simp add: generate_graph_def)
    with Cons.IH have "extended_by g1 (concat (map (\<lambda>gr. concat (map node_reads (nodes gr))) grs)) g'"
      by blast
    moreover have "extended_by g (concat (map node_reads (nodes gr))) g1"
      using r1 s1 compile_graph_extended by blast
    ultimately have "extended_by g (concat (map node_reads (nodes gr))
          @ concat (map (\<lambda>gr. concat (map node_reads (nodes gr))) grs)) g'"
      using extended_by_append by blast
    then show ?thesis by simp
  qed
qed

text \<open>
  C8, as the code has it. Script generation is not scoped to the call: it reads the
  accumulators \<^verbatim>\<open>param_set\<close> and \<^verbatim>\<open>graph_input\<close> as earlier runs left them and writes
  to them. Every run that returns leaves \<^verbatim>\<open>not_self\<close> as it was, \<^verbatim>\<open>graph_input\<close> with
  what it held as a prefix, and \<^verbatim>\<open>param_set\<close> with all it held. A run that returns
  scripts has appended to \<^verbatim>\<open>graph_input\<close> exactly the values of the visited parameters
  named \<^verbatim>\<open>input_level\<close>, in the order of the visit, and has added to \<^verbatim>\<open>param_set\<close>
  exactly the ids of the visited parameters without a function. When every visited
  parameter is settled, a run that returns leaves the accumulators as they are, so that
  running again gives the same result. A run that returns scripts for a model without
  an \<^verbatim>\<open>input_level\<close> parameter leaves the model settled: from the second run on, the
  scripts repeat.
\<close>

theorem accumulators_across_runs:
  "(generate_scripts_from_model E m g = Some (r, g') \<longrightarrow>
      not_self g' = not_self g
      \<and> prefix (graph_input g) (graph_input g')
      \<and> set (param_set g) \<subseteq> set (param_set g'))
   \<and> (generate_scripts_from_model E m g = Some (Inr s, g') \<longrightarrow>
      graph_input g' = graph_input g @ inputs_of (visited m)
      \<and> set (param_set g') = set (param_set g) \<union> set (owned_ids (visited m)))
   \<and> (model_settled m g \<and> generate_scripts_from_model E m g = Some (r, g') \<longrightarrow>
      g' = g \<and> generate_scripts_from_model E m g' = Some (r, g'))
   \<and> (no_input_level m \<and> generate_scripts_from_model E m g = Some (Inr s, g') \<longrightarrow>
      model_settled m g')"
proof (intro conjI impI)
  assume "generate_scripts_from_model E m g = Some (r, g')"
  then have "extends g g'"
    by (simp add: generate_scripts_from_model_def generate_graphs_extends)
  then show "not_self g' = not_self g" "prefix (graph_input g) (graph_input g')"
    "set (param_set g) \<subseteq> set (param_set g')"
    by (simp_all add: extends_def)
next
  assume "generate_scripts_from_model E m g = Some (Inr s, g')"
  then have "extended_by g (visited m) g'"
    unfolding generate_scripts_from_model_def visited_def by (rule generate_graphs_extended)
  then show "graph_input g' = graph_input g @ inputs_of (visited m)"
    "set (param_set g') = set (param_set g) \<union> set (owned_ids (visited m))"
    by (simp_all add: extended_by_def)
next
  assume h: "model_settled m g \<and> generate_scripts_from_model E m g = Some (r, g')"
  then show "g' = g"
    using generate_graphs_settled [of g "graphs m" E m "[]" r g']
    by (simp add: generate_scripts_from_model_def model_settled_iff)
  with h show "generate_scripts_from_model E m g' = Some (r, g')" by simp
next
  assume h: "no_input_level m \<and> generate_scripts_from_model E m g = Some (Inr s, g')"
  then have "extended_by g (visited m) g'"
    unfolding generate_scripts_from_model_def visited_def
    using generate_graphs_extended by blast
  then have ids: "set (owned_ids (visited m)) \<subseteq> set (param_set g')"
    by (auto simp: extended_by_def)
  have "settled g' p" if "p \<in> set (visited m)" for p
  proof -
    have "param_id p \<noteq> ''input_level''"
      using h that by (auto simp: no_input_level_def list_all_iff)
    moreover have "\<not> truthy_opt (param_function p) \<Longrightarrow> param_id p \<in> set (param_set g')"
      using ids that by (auto simp: owned_ids_def)
    ultimately show ?thesis by (auto simp: settled_def)
  qed
  then show "model_settled m g'" by (simp add: model_settled_def list_all_iff)
qed

lemma input_model_run:
  "\<exists>s. generate_scripts_from_model test_env input_model fresh_globals
     = Some (Inr s, \<lparr>not_self = [], param_set = [''input_level'', ''b''],
                     graph_input = [PyInt 1]\<rparr>)"
  by (simp add: input_model_def adder_node_def param_node_def exporter_defs)

lemma cyclic_model_rerun:
  "\<exists>r g'. generate_scripts_from_model test_env cyclic_model
             \<lparr>not_self = [], param_set = [''a'', ''b''], graph_input = []\<rparr> = Some (r, g')"
  by (simp add: cyclic_model_def cyclic_graph_def adder_node_def exporter_defs)

lemma cyclic_model_settled:
  "model_settled cyclic_model \<lparr>not_self = [], param_set = [''a'', ''b''], graph_input = []\<rparr>"
  "no_input_level cyclic_model"
  by (simp_all add: model_settled_def no_input_level_def visited_def node_reads_def settled_def
        cyclic_model_def cyclic_graph_def adder_node_def const_param_def)

theorem accumulators_across_runs_witness:
  "(\<exists>s. generate_scripts_from_model test_env input_model fresh_globals
          = Some (Inr s, \<lparr>not_self = [], param_set = [''input_level'', ''b''],
                          graph_input = [PyInt 1]\<rparr>))
   \<and> prefix (graph_input fresh_globals) [PyInt 1]
   \<and> set (param_set fresh_globals) \<subseteq> set [''input_level'', ''b'']
   \<and> inputs_of (visited input_model) = [PyInt 1]
   \<and> [PyInt 1] = graph_input fresh_globals @ inputs_of (visited input_model)
   \<and> set [''input_level'', ''b'']
       = set (param_set fresh_globals) \<union> set (owned_ids (visited input_model))
   \<and> model_settled cyclic_model \<lparr>not_self = [], param_set = [''a'', ''b''], graph_input = []\<rparr>
   \<and> (\<exists>r. generate_scripts_from_model test_env cyclic_model
              \<lparr>not_self = [], param_set = [''a'', ''b''], graph_input = []\<rparr>
            = Some (r, \<lparr>not_self = [], param_set = [''a'', ''b''], graph_input = []\<rparr>))
   \<and> no_input_level cyclic_model
   \<and> generate_scripts_from_model test_env cyclic_model fresh_globals
       = Some (Inr [(''g'', cyclic_script)],
               \<lparr>not_self = [], param_set = [''a'', ''b''], graph_input = []\<rparr>)"
proof -
  from input_model_run obtain s where
    run: "generate_scripts_from_model test_env input_model fresh_globals
          = Some (Inr s, \<lparr>not_self = [], param_set = [''input_level'', ''b''],
                          graph_input = [PyInt 1]\<rparr>)"
    by blast
  from accumulators_across_runs
         [where E = test_env and m = input_model and g = fresh_globals and r = "Inr s" and s = s
            and g' = "\<lparr>not_self = [], param_set = [''input_level'', ''b''],
                        graph_input = [PyInt 1]\<rparr>"] run
  have a: "prefix (graph_input fresh_globals) [PyInt 1]"
    and b: "set (param_set fresh_globals) \<subseteq> set [''input_level'', ''b'']"
    and c: "[PyInt 1] = graph_input fresh_globals @ inputs_of (visited input_model)"
    and d: "set [''input_level'', ''b'']
              = set (param_set fresh_globals) \<union> set (owned_ids (visited input_model))"
    by simp_all
  from c have e: "inputs_of (visited input_model) = [PyInt 1]"
    by (simp add: fresh_globals_def)
  from cyclic_model_rerun obtain r g' where
    rerun: "generate_scripts_from_model test_env cyclic_model
             \<lparr>not_self = [], param_set = [''a'', ''b''], graph_input = []\<rparr> = Some (r, g')"
    by blast
  from accumulators_across_runs
         [where E = test_env and m = cyclic_model and r = r and g' = g'
            and g = "\<lparr>not_self = [], param_set = [''a'', ''b''], graph_input = []\<rparr>"]
       rerun cyclic_model_settled(1)
  have "g' = \<lparr>not_self = [], param_set = [''a'', ''b''], graph_input = []\<rparr>" by simp
  with rerun have f: "\<exists>r. generate_scripts_from_model test_env cyclic_model
              \<lparr>not_self = [], param_set = [''a'', ''b''], graph_input = []\<rparr>
            = Some (r, \<lparr>not_self = [], param_set = [''a'', ''b''], graph_input = []\<rparr>)"
    by blast
  from run a b c d e f cyclic_model_settled cyclic_model_run show ?thesis by blast
qed

lemma w_model_run:
  "map_option snd (generate_scripts_from_model test_env w_model fresh_globals)
     = Some \<lparr>not_self = [], param_set = [''w''], graph_input = []\<rparr>"
  by (simp add: w_model_def param_node_def exporter_defs)

lemma input_model_reruns:
  "map_option snd (generate_scripts_from_model test_env input_model fresh_globals)
     = Some \<lparr>not_self = [], param_set = [''input_level'', ''b''], graph_input = [PyInt 1]\<rparr>"
  "map_option fst (generate_scripts_from_model test_env input_model
        \<lparr>not_self = [], param_set = [''input_level'', ''b''], graph_input = [PyInt 1]\<rparr>)
     \<noteq> map_option fst (generate_scripts_from_model test_env input_model fresh_globals)"
  by (simp_all add: input_model_def adder_node_def param_node_def exporter_defs)

lemma weight_model_runs:
  "map_option fst (generate_scripts_from_model test_env weight_model fresh_globals)
     = Some (Inr [(''g2'',
          ''import torch''
          @ [nl] @ ''import torch.nn as nn''
          @ [nl] @ ''import onnx''
          @ [nl] @ ''import onnxruntime as rt''
          @ [nl] @ ''from math import *''
          @ [nl] @ ''class B(nn.Module):''
          @ [nl, tab] @ ''def __init__(self,b=torch.tensor(1),):''
          @ [nl, tab, tab] @ ''super().__init__()''
          @ [nl, tab, tab] @ ''self.b=b''
          @ [nl, tab, tab] @ ''self.execution_count=torch.tensor(0)''
          @ [nl, tab] @ ''def forward(self,weight ):''
          @ [nl, tab, tab] @ ''self.execution_count=self.execution_count+torch.tensor(1)''
          @ [nl, tab, tab] @ ''return self.b * weight''
          @ [nl] @ ''class Model(nn.Module):''
          @ [nl, tab] @ ''def __init__(self,B, ):''
          @ [nl, tab, tab] @ ''super().__init__()''
          @ [nl, tab, tab] @ ''self.B = B''
          @ [nl, tab] @ ''def forward(self, input):''
          @ [nl, tab, tab] @ '' val_B=torch.zeros_like(input)''
          @ [nl, nl, tab, tab] @ '' val_B=val_B+self.B()''
          @ [nl, nl, tab, tab] @ '' return val_B,f''
          @ [nl] @ ''model={nodes[0].id}'')])"
  "map_option fst (generate_scripts_from_model test_env weight_model
        \<lparr>not_self = [], param_set = [''w''], graph_input = []\<rparr>)
     = Some (Inr [(''g2'',
          ''import torch''
          @ [nl] @ ''import torch.nn as nn''
          @ [nl] @ ''import onnx''
          @ [nl] @ ''import onnxruntime as rt''
          @ [nl] @ ''from math import *''
          @ [nl] @ ''class B(nn.Module):''
          @ [nl, tab] @ ''def __init__(self,b=torch.tensor(1),):''
          @ [nl, tab, tab] @ ''super().__init__()''
          @ [nl, tab, tab] @ ''self.b=b''
          @ [nl, tab, tab] @ ''self.execution_count=torch.tensor(0)''
          @ [nl, tab] @ ''def forward(self,weight ):''
          @ [nl, tab, tab] @ ''self.execution_count=self.execution_count+torch.tensor(1)''
          @ [nl, tab, tab] @ ''return self.b * self.weight''
          @ [nl] @ ''class Model(nn.Module):''
          @ [nl, tab] @ ''def __init__(self,B, ):''
          @ [nl, tab, tab] @ ''super().__init__()''
          @ [nl, tab, tab] @ ''self.B = B''
          @ [nl, tab] @ ''def forward(self, input):''
          @ [nl, tab, tab] @ '' val_B=torch.zeros_like(input)''
          @ [nl, nl, tab, tab] @ '' val_B=val_B+self.B()''
          @ [nl, nl, tab, tab] @ '' return val_B,f''
          @ [nl] @ ''model={nodes[0].id}'')])"
  by (simp_all add: weight_model_def param_node_def exporter_defs)

text \<open>
  C8 as stated fails. The first run on the model with an \<^verbatim>\<open>input_level\<close> parameter
  leaves its value in \<^verbatim>\<open>graph_input\<close>, and the second run, from those accumulators,
  writes a script that differs from the first (its dummy input is the tuple of both
  collected values). The run on the model that owns \<^verbatim>\<open>w\<close> leaves \<^verbatim>\<open>w\<close> in \<^verbatim>\<open>param_set\<close>,
  and the script of the model that reads the port \<^verbatim>\<open>weight\<close> then has \<^verbatim>\<open>self.weight\<close>
  where a run from empty accumulators has \<^verbatim>\<open>weight\<close>.
\<close>

theorem process_state_counterexample:
  "map_option snd (generate_scripts_from_model test_env input_model fresh_globals)
     = Some \<lparr>not_self = [], param_set = [''input_level'', ''b''], graph_input = [PyInt 1]\<rparr>
   \<and> map_option fst (generate_scripts_from_model test_env input_model
        \<lparr>not_self = [], param_set = [''input_level'', ''b''], graph_input = [PyInt 1]\<rparr>)
     \<noteq> map_option fst (generate_scripts_from_model test_env input_model fresh_globals)
   \<and> map_option snd (generate_scripts_from_model test_env w_model fresh_globals)
     = Some \<lparr>not_self = [], param_set = [''w''], graph_input = []\<rparr>
   \<and> map_option fst (generate_scripts_from_model test_env weight_model fresh_globals)
     = Some (Inr [(''g2'',
          ''import torch''
          @ [nl] @ ''import torch.nn as nn''
          @ [nl] @ ''import onnx''
          @ [nl] @ ''import onnxruntime as rt''
          @ [nl] @ ''from math import *''
          @ [nl] @ ''class B(nn.Module):''
          @ [nl, tab] @ ''def __init__(self,b=torch.tensor(1),):''
          @ [nl, tab, tab] @ ''super().__init__()''
          @ [nl, tab, tab] @ ''self.b=b''
          @ [nl, tab, tab] @ ''self.execution_count=torch.tensor(0)''
          @ [nl, tab] @ ''def forward(self,weight ):''
          @ [nl, tab, tab] @ ''self.execution_count=self.execution_count+torch.tensor(1)''
          @ [nl, tab, tab] @ ''return self.b * weight''
          @ [nl] @ ''class Model(nn.Module):''
          @ [nl, tab] @ ''def __init__(self,B, ):''
          @ [nl, tab, tab] @ ''super().__init__()''
          @ [nl, tab, tab] @ ''self.B = B''
          @ [nl, tab] @ ''def forward(self, input):''
          @ [nl, tab, tab] @ '' val_B=torch.zeros_like(input)''
          @ [nl, nl, tab, tab] @ '' val_B=val_B+self.B()''
          @ [nl, nl, tab, tab] @ '' return val_B,f''
          @ [nl] @ ''model={nodes[0].id}'')])
   \<and> map_option fst (generate_scripts_from_model test_env weight_model
        \<lparr>not_self = [], param_set = [''w''], graph_input = []\<rparr>)
     = Some (Inr [(''g2'',
          ''import torch''
          @ [nl] @ ''import torch.nn as nn''
          @ [nl] @ ''import onnx''
          @ [nl] @ ''import onnxruntime as rt''
          @ [nl] @ ''from math import *''
          @ [nl] @ ''class B(nn.Module):''
          @ [nl, tab] @ ''def __init__(self,b=torch.tensor(1),):''
          @ [nl, tab, tab] @ ''super().__init__()''
          @ [nl, tab, tab] @ ''self.b=b''
          @ [nl, tab, tab] @ ''self.execution_count=torch.tensor(0)''
          @ [nl, tab] @ ''def forward(self,weight ):''
          @ [nl, tab, tab] @ ''self.execution_count=self.execution_count+torch.tensor(1)''
          @ [nl, tab, tab] @ ''return self.b * self.weight''
          @ [nl] @ ''class Model(nn.Module):''
          @ [nl, tab] @ ''def __init__(self,B, ):''
          @ [nl, tab, tab] @ ''super().__init__()''
          @ [nl, tab, tab] @ ''self.B = B''
          @ [nl, tab] @ ''def forward(self, input):''
          @ [nl, tab, tab] @ '' val_B=torch.zeros_like(input)''
          @ [nl, nl, tab, tab] @ '' val_B=val_B+self.B()''
          @ [nl, nl, tab, tab] @ '' return val_B,f''
          @ [nl] @ ''model={nodes[0].id}'')])"
  using w_model_run input_model_reruns weight_model_runs by blast

subsection \<open>The forward pass as statements\<close>












subsection \<open>Running the forward pass\<close>












subsection \<open>Fan-in and source nodes\<close>









subsection \<open>Stateful parameters with a time derivative\<close>






















end
